theory Spec2Isabelle
  imports Complex_Main "HOL-Library.Log_Nat"
begin

section \<open>Data model of the subscription application\<close>

text \<open>
  Instants (\<open>datetime\<close> values with a time zone) are integers: microseconds since the
  epoch. A nullable column is an \<open>option\<close>. One call of a model method reads the clock
  (\<open>timezone.now()\<close>) as the parameter \<open>now\<close>: time does not advance during a call.
\<close>

type_synonym datetime = int

text \<open>
  \<open>User.Type\<close> is declared in \<open>qfieldcloud.core.models\<close>. The column is a small
  positive integer; \<open>Plan.save\<close> names the members \<open>PERSON\<close> and \<open>ORGANIZATION\<close>,
  every other stored integer is \<open>OtherType\<close>.
\<close>

datatype user_type = PERSON | ORGANIZATION | OtherType nat

text \<open>
  \<open>class Plan(models.Model)\<close>. The columns kept are those that the methods below read
  or write; \<open>plan_pk\<close> is \<open>None\<close> for an instance that was never saved.
\<close>

record plan =
  plan_pk :: "nat option"
  code :: string
  user_type :: user_type
  display_name :: string
  storage_mb :: nat
  is_public :: bool
  is_default :: bool
  is_premium :: bool

text \<open>\<open>Subscription.Status\<close>, with the value stored in the database.\<close>

datatype Status =
    INACTIVE_DRAFT
  | INACTIVE_DRAFT_EXPIRED
  | INACTIVE_REQUESTED_CREATE
  | INACTIVE_AWAITS_PAYMENT
  | ACTIVE_PAID
  | ACTIVE_PAST_DUE
  | INACTIVE_CANCELLED

fun Status_value :: "Status \<Rightarrow> string" where
  "Status_value INACTIVE_DRAFT = ''inactive_draft''"
| "Status_value INACTIVE_DRAFT_EXPIRED = ''inactive_draft_expired''"
| "Status_value INACTIVE_REQUESTED_CREATE = ''inactive Requested_create''"
| "Status_value INACTIVE_AWAITS_PAYMENT = ''inactive_awaits_payment''"
| "Status_value ACTIVE_PAID = ''active_paid''"
| "Status_value ACTIVE_PAST_DUE = ''active_past_due''"
| "Status_value INACTIVE_CANCELLED = ''inactive_cancelled''"

text \<open>
  \<open>class Subscription(models.Model)\<close>: a row of \<open>subscription_subscription\<close>. The
  columns \<open>uuid\<close>, \<open>created_at\<close> and \<open>updated_at\<close> are written once by the
  database layer and read by no method below; they are left out.
\<close>

record subscription =
  sub_id :: nat
  plan_id :: nat
  account_id :: nat
  storage_quantity :: nat
  status :: Status
  created_by_id :: nat
  requested_cancel_at :: "datetime option"
  active_since :: "datetime option"
  active_until :: "datetime option"

text \<open>\<open>class ExtraPackage(models.Model)\<close>; \<open>active_since\<close> is not nullable here.\<close>

record extra_package =
  pkg_id :: nat
  pkg_subscription_id :: nat
  pkg_type_id :: nat
  quantity :: int
  pkg_active_since :: datetime
  pkg_active_until :: "datetime option"

text \<open>
  \<open>UserAccount\<close> (declared in \<open>qfieldcloud.core.models\<close>): the methods read
  \<open>account.pk\<close>, \<open>account.user\<close> and \<open>account.user.type\<close>.
\<close>

record user_account =
  account_pk :: nat
  user_id :: nat
  account_user_type :: user_type

text \<open>
  The database: one list of rows per table, in the order the rows are returned, and for
  each table the sequence that gives its \<open>AutoField\<close> primary keys (the last value
  drawn).
\<close>

record db =
  plans :: "plan list"
  subscriptions :: "subscription list"
  packages :: "extra_package list"
  plan_id_seq :: nat
  subscription_id_seq :: nat
  extrapackage_id_seq :: nat

text \<open>Every exception the modelled methods can raise.\<close>

datatype error =
    Subscription_DoesNotExist
  | Subscription_MultipleObjectsReturned
  | Plan_DoesNotExist
  | Plan_MultipleObjectsReturned
  | ExtraPackage_DoesNotExist
  | ExtraPackage_MultipleObjectsReturned
  | AssertionError string
  | AttributeError
  | ValueError
  | ValidationError string
  | IntegrityError
  | DataError
  | OverflowError

section \<open>Query sets\<close>

text \<open>
  \<open>SubscriptionQuerySet.active\<close>:
  \<open>Q(active_since__lte=now) & (Q(active_until__isnull=True) | Q(active_until__gte=now))\<close>.
  A comparison with a null column is not true, so a row without \<open>active_since\<close> is
  not selected.
\<close>

definition subscription_is_active :: "datetime \<Rightarrow> subscription \<Rightarrow> bool" where
  "subscription_is_active now s =
     ((case active_since s of None \<Rightarrow> False | Some since \<Rightarrow> since \<le> now) \<and>
      (case active_until s of None \<Rightarrow> True | Some until \<Rightarrow> until \<ge> now))"

definition SubscriptionQuerySet_active :: "datetime \<Rightarrow> subscription list \<Rightarrow> subscription list" where
  "SubscriptionQuerySet_active now qs = filter (subscription_is_active now) qs"

text \<open>\<open>ExtraPackageQuerySet.active\<close>: the same filter on the package table.\<close>

definition extra_package_is_active :: "datetime \<Rightarrow> extra_package \<Rightarrow> bool" where
  "extra_package_is_active now p =
     (pkg_active_since p \<le> now \<and>
      (case pkg_active_until p of None \<Rightarrow> True | Some until \<Rightarrow> until \<ge> now))"

definition ExtraPackageQuerySet_active :: "datetime \<Rightarrow> extra_package list \<Rightarrow> extra_package list" where
  "ExtraPackageQuerySet_active now qs = filter (extra_package_is_active now) qs"

text \<open>
  \<open>QuerySet.get\<close>: the only row of the query set; \<open>DoesNotExist\<close> on none,
  \<open>MultipleObjectsReturned\<close> on more than one. The two exception classes belong to the
  model, so they are parameters.
\<close>

fun get :: "error \<Rightarrow> error \<Rightarrow> 'a list \<Rightarrow> error + 'a" where
  "get dne mult [] = Inl dne"
| "get dne mult [x] = Inr x"
| "get dne mult (x # y # rest) = Inl mult"

text \<open>
  \<open>transaction.atomic()\<close>: when the block raises, every write of the block to a
  table is rolled back and the exception propagates. A value drawn from a sequence is
  not given back by a rollback.
\<close>

definition keep_sequences :: "db \<Rightarrow> db \<Rightarrow> db" where
  "keep_sequences before after =
     before\<lparr>plan_id_seq := plan_id_seq after,
            subscription_id_seq := subscription_id_seq after,
            extrapackage_id_seq := extrapackage_id_seq after\<rparr>"

definition atomic :: "(db \<Rightarrow> (error + 'a) \<times> db) \<Rightarrow> db \<Rightarrow> (error + 'a) \<times> db" where
  "atomic body d =
     (case body d of
        (Inl e, d') \<Rightarrow> (Inl e, keep_sequences d d')
      | (Inr v, d') \<Rightarrow> (Inr v, d'))"

section \<open>The exclusion constraint on subscriptions\<close>

text \<open>
  \<open>sql_config.py\<close> adds to \<open>subscription_subscription\<close> the constraint
  \<open>EXCLUDE USING gist (account_id WITH =, tstzrange(active_since, active_until) WITH &&)
  WHERE (active_since IS NOT NULL)\<close>.
  \<open>tstzrange(lower, upper)\<close> is the range that includes \<open>lower\<close> and excludes
  \<open>upper\<close>; a null \<open>upper\<close> is unbounded; it is an error when \<open>lower\<close> is
  greater than \<open>upper\<close>. \<open>&&\<close> is true when the two ranges have an instant in common.
\<close>

type_synonym tstzrange = "datetime \<times> datetime option"

definition tstzrange_error :: "tstzrange \<Rightarrow> bool" where
  "tstzrange_error r = (case snd r of None \<Rightarrow> False | Some upper \<Rightarrow> upper < fst r)"

definition range_contains :: "tstzrange \<Rightarrow> datetime \<Rightarrow> bool" where
  "range_contains r t = (fst r \<le> t \<and> (case snd r of None \<Rightarrow> True | Some upper \<Rightarrow> t < upper))"

definition below_upper :: "datetime \<Rightarrow> datetime option \<Rightarrow> bool" where
  "below_upper t upper = (case upper of None \<Rightarrow> True | Some u \<Rightarrow> t < u)"

definition range_overlaps :: "tstzrange \<Rightarrow> tstzrange \<Rightarrow> bool" where
  "range_overlaps r1 r2 =
     (below_upper (fst r1) (snd r1) \<and> below_upper (fst r2) (snd r2) \<and>
      below_upper (fst r1) (snd r2) \<and> below_upper (fst r2) (snd r1))"

definition conflicts :: "subscription \<Rightarrow> subscription \<Rightarrow> bool" where
  "conflicts s t =
     (case active_since s of
        None \<Rightarrow> False
      | Some a \<Rightarrow>
          (case active_since t of
             None \<Rightarrow> False
           | Some b \<Rightarrow>
               account_id s = account_id t \<and>
               range_overlaps (a, active_until s) (b, active_until t)))"

text \<open>
  The period of a row as the constraint reads it: rows without \<open>active_since\<close> have
  none (the \<open>WHERE\<close> clause).
\<close>

definition period_contains :: "subscription \<Rightarrow> datetime \<Rightarrow> bool" where
  "period_contains s t =
     (case active_since s of None \<Rightarrow> False | Some a \<Rightarrow> range_contains (a, active_until s) t)"

fun exclusion_holds :: "subscription list \<Rightarrow> bool" where
  "exclusion_holds [] = True"
| "exclusion_holds (s # rest) = (list_all (\<lambda>t. \<not> conflicts s t) rest \<and> exclusion_holds rest)"

text \<open>
  The check that the database runs on the table after a statement that writes rows:
  \<open>DataError\<close> when a range cannot be built, \<open>IntegrityError\<close> when two rows conflict.
  Every stored table passed this check when it was written, so the check of the whole
  table decides the same as the check of the rows just written.
\<close>

definition range_error_row :: "subscription \<Rightarrow> bool" where
  "range_error_row s =
     (case active_since s of None \<Rightarrow> False | Some a \<Rightarrow> tstzrange_error (a, active_until s))"

definition prevent_overlaps :: "subscription list \<Rightarrow> error option" where
  "prevent_overlaps rows =
     (if list_ex range_error_row rows then Some DataError
      else if exclusion_holds rows then None
      else Some IntegrityError)"

section \<open>Subscription: class methods\<close>

text \<open>
  \<open>Subscription.objects.create(plan, account, created_by, status, active_since)\<close>:
  the other columns take their defaults. One INSERT: the key is the next value of the
  sequence, which stays drawn when the statement fails; the primary key is unique; the
  row is checked by the constraint.
\<close>

definition Subscription_objects_create ::
  "nat \<Rightarrow> nat \<Rightarrow> nat \<Rightarrow> Status \<Rightarrow> datetime option \<Rightarrow> db \<Rightarrow> (error + subscription) \<times> db" where
  "Subscription_objects_create plan account created_by st since d =
     (let key = Suc (subscription_id_seq d);
          d1 = d\<lparr>subscription_id_seq := key\<rparr>;
          row = \<lparr>sub_id = key,
                 plan_id = plan,
                 account_id = account,
                 storage_quantity = 0,
                 status = st,
                 created_by_id = created_by,
                 requested_cancel_at = None,
                 active_since = since,
                 active_until = None\<rparr>;
          rows = subscriptions d @ [row]
      in if list_ex (\<lambda>s. sub_id s = key) (subscriptions d) then (Inl IntegrityError, d1)
         else case prevent_overlaps rows of
                Some e \<Rightarrow> (Inl e, d1)
              | None \<Rightarrow> (Inr row, d1\<lparr>subscriptions := rows\<rparr>))"

text \<open>
  \<open>Subscription.create_default_plan_subscription(account, active_since=None)\<close>.
  \<open>active_subscription\<close> is a query set; when it is not empty the \<open>raise\<close>
  statement first formats its message, which reads \<open>active_subscription.id\<close>: a query
  set has no such attribute, so the exception that leaves the method is
  \<open>AttributeError\<close>. \<open>plan=plan\<close> needs a saved plan (\<open>ValueError\<close> otherwise).
\<close>

definition create_default_plan_subscription ::
  "user_account \<Rightarrow> datetime option \<Rightarrow> datetime \<Rightarrow> db \<Rightarrow> (error + subscription) \<times> db" where
  "create_default_plan_subscription account active_since_arg now d =
     (let active_subscription =
            filter (\<lambda>s. account_id s = account_pk account)
              (SubscriptionQuerySet_active now (subscriptions d))
      in if active_subscription \<noteq> [] then (Inl AttributeError, d)
         else
           let since = (case active_since_arg of None \<Rightarrow> now | Some t \<Rightarrow> t)
           in case get Plan_DoesNotExist Plan_MultipleObjectsReturned
                     (filter (\<lambda>p. user_type p = account_user_type account \<and> is_default p = True)
                        (plans d)) of
                Inl e \<Rightarrow> (Inl e, d)
              | Inr p \<Rightarrow>
                  (case plan_pk p of
                     None \<Rightarrow> (Inl ValueError, d)
                   | Some pid \<Rightarrow>
                       Subscription_objects_create pid (account_pk account) (user_id account)
                         ACTIVE_PAID (Some since) d))"

text \<open>
  \<open>Subscription.get_or_create_active_subscription(account)\<close>: only
  \<open>Subscription.DoesNotExist\<close> is caught.
\<close>

definition get_or_create_active_subscription ::
  "user_account \<Rightarrow> datetime \<Rightarrow> db \<Rightarrow> (error + subscription) \<times> db" where
  "get_or_create_active_subscription account now d =
     (case get Subscription_DoesNotExist Subscription_MultipleObjectsReturned
             (filter (\<lambda>s. account_id s = account_pk account)
                (SubscriptionQuerySet_active now (subscriptions d))) of
        Inr subscription \<Rightarrow> (Inr subscription, d)
      | Inl e \<Rightarrow>
          if e = Subscription_DoesNotExist
          then create_default_plan_subscription account None now d
          else (Inl e, d))"

text \<open>
  The keyword arguments of \<open>update_subscription\<close>: assignments to the columns of the
  row other than the primary key and the three that are named parameters.
\<close>

datatype subscription_attr =
    Plan_id nat
  | Account_id nat
  | Storage_quantity nat
  | Created_by_id nat
  | Requested_cancel_at "datetime option"

fun setattr :: "subscription \<Rightarrow> subscription_attr \<Rightarrow> subscription" where
  "setattr s (Plan_id v) = s\<lparr>plan_id := v\<rparr>"
| "setattr s (Account_id v) = s\<lparr>account_id := v\<rparr>"
| "setattr s (Storage_quantity v) = s\<lparr>storage_quantity := v\<rparr>"
| "setattr s (Created_by_id v) = s\<lparr>created_by_id := v\<rparr>"
| "setattr s (Requested_cancel_at v) = s\<lparr>requested_cancel_at := v\<rparr>"

text \<open>
  The integer columns hold values up to 2147483647; a larger value in a statement is a
  \<open>DataError\<close>. Foreign keys are taken to name existing rows.
\<close>

fun attr_out_of_range :: "subscription_attr \<Rightarrow> bool" where
  "attr_out_of_range (Plan_id v) = (2147483647 < v)"
| "attr_out_of_range (Account_id v) = (2147483647 < v)"
| "attr_out_of_range (Storage_quantity v) = (2147483647 < v)"
| "attr_out_of_range (Created_by_id v) = (2147483647 < v)"
| "attr_out_of_range (Requested_cancel_at v) = False"

text \<open>
  The bulk update of \<open>update_subscription\<close>:
  \<open>cls.objects.active().filter(account_id=...).exclude(pk=...).update(status=INACTIVE_CANCELLED,
  active_until=active_since)\<close>.
\<close>

definition cancel_other_active ::
  "datetime \<Rightarrow> subscription \<Rightarrow> datetime \<Rightarrow> subscription \<Rightarrow> subscription" where
  "cancel_other_active now subscription since s =
     (if subscription_is_active now s \<and> account_id s = account_id subscription \<and>
         sub_id s \<noteq> sub_id subscription
      then s\<lparr>status := INACTIVE_CANCELLED, active_until := Some since\<rparr>
      else s)"

text \<open>
  \<open>Subscription.update_subscription(subscription, status, active_since, active_until=None,
  **kwargs)\<close>. The argument is read for its \<open>id\<close> only; the row is fetched again under
  a lock. \<open>save(update_fields=...)\<close> writes the assigned columns into the row with the
  primary key of the instance: the row becomes the instance, which was read from it. The
  constraint is checked after each of the two writing statements; the values of the
  keyword arguments are checked when the second statement is sent.
\<close>

definition update_subscription ::
  "subscription \<Rightarrow> Status \<Rightarrow> datetime \<Rightarrow> datetime option \<Rightarrow> subscription_attr list \<Rightarrow>
   datetime \<Rightarrow> db \<Rightarrow> (error + subscription) \<times> db" where
  "update_subscription subscription0 st since until kwargs now =
     atomic (\<lambda>d.
       case get Subscription_DoesNotExist Subscription_MultipleObjectsReturned
              (filter (\<lambda>s. sub_id s = sub_id subscription0) (subscriptions d)) of
         Inl e \<Rightarrow> (Inl e, d)
       | Inr subscription \<Rightarrow>
           let d1 = d\<lparr>subscriptions :=
                        map (cancel_other_active now subscription since) (subscriptions d)\<rparr>
           in case prevent_overlaps (subscriptions d1) of
                Some e \<Rightarrow> (Inl e, d1)
              | None \<Rightarrow>
                  let updated = foldl setattr
                        (subscription\<lparr>status := st, active_since := Some since,
                                       active_until := until\<rparr>) kwargs;
                      d2 = d1\<lparr>subscriptions :=
                                 map (\<lambda>s. if sub_id s = sub_id updated then updated else s)
                                   (subscriptions d1)\<rparr>
                  in if list_ex attr_out_of_range kwargs then (Inl DataError, d1)
                     else case prevent_overlaps (subscriptions d2) of
                            Some e \<Rightarrow> (Inl e, d2)
                          | None \<Rightarrow> (Inr updated, d2))"

section \<open>Subscription: packages\<close>

text \<open>
  \<open>ExtraPackage.objects.create(subscription, quantity, type, active_since)\<close>: the key
  is the next value of the sequence and is unique; \<open>sql_config.py\<close> declares no
  constraint on the package table.
\<close>

definition ExtraPackage_objects_create ::
  "nat \<Rightarrow> int \<Rightarrow> nat \<Rightarrow> datetime \<Rightarrow> db \<Rightarrow> (error + extra_package) \<times> db" where
  "ExtraPackage_objects_create sub qty package_type since d =
     (let key = Suc (extrapackage_id_seq d);
          d1 = d\<lparr>extrapackage_id_seq := key\<rparr>;
          row = \<lparr>pkg_id = key,
                 pkg_subscription_id = sub,
                 pkg_type_id = package_type,
                 quantity = qty,
                 pkg_active_since = since,
                 pkg_active_until = None\<rparr>
      in if list_ex (\<lambda>k. pkg_id k = key) (packages d) then (Inl IntegrityError, d1)
         else (Inr row, d1\<lparr>packages := packages d @ [row]\<rparr>))"

text \<open>
  The expression \<open>self.subscription\<close> inside \<open>update_package_quantity\<close>, where
  \<open>self\<close> is a \<open>Subscription\<close>. The class declares the fields \<open>uuid\<close>, \<open>plan\<close>,
  \<open>account\<close>, \<open>storage_quantity\<close>, \<open>status\<close>, \<open>created_by\<close>, \<open>created_at\<close>,
  \<open>updated_at\<close>, \<open>requested_cancel_at\<close>, \<open>active_since\<close>, \<open>active_until\<close>, the
  reverse accessor \<open>packages\<close>, four properties and its methods: no attribute is
  named \<open>subscription\<close>, and reading it raises \<open>AttributeError\<close>.
\<close>

definition self_subscription :: "subscription \<Rightarrow> error + subscription" where
  "self_subscription self = Inl AttributeError"

text \<open>
  The body of the \<open>try\<close> in \<open>update_package_quantity\<close>: the arguments of \<open>get\<close>
  are evaluated first; then the active package is fetched, closed at \<open>now\<close> and saved.
\<close>

definition close_old_package ::
  "subscription \<Rightarrow> nat \<Rightarrow> datetime \<Rightarrow> db \<Rightarrow> error + db" where
  "close_old_package self package_type now d =
     (case self_subscription self of
        Inl e \<Rightarrow> Inl e
      | Inr target \<Rightarrow>
          (case get ExtraPackage_DoesNotExist ExtraPackage_MultipleObjectsReturned
                  (filter (\<lambda>k. pkg_subscription_id k = sub_id target \<and> pkg_type_id k = package_type)
                     (ExtraPackageQuerySet_active now (packages d))) of
             Inl e \<Rightarrow> Inl e
           | Inr old_package \<Rightarrow>
               Inr (d\<lparr>packages :=
                        map (\<lambda>k. if pkg_id k = pkg_id old_package
                                  then k\<lparr>pkg_active_until := Some now\<rparr> else k)
                          (packages d)\<rparr>)))"

definition create_new_package ::
  "subscription \<Rightarrow> nat \<Rightarrow> int \<Rightarrow> datetime \<Rightarrow> db \<Rightarrow> (error + extra_package option) \<times> db" where
  "create_new_package self package_type qty now d =
     (if qty > 0
      then (case ExtraPackage_objects_create (sub_id self) qty package_type now d of
              (Inl e, d') \<Rightarrow> (Inl e, d')
            | (Inr new_package, d') \<Rightarrow> (Inr (Some new_package), d'))
      else (Inr None, d))"

text \<open>
  \<open>Subscription.update_package_quantity(self, package_type, quantity)\<close>.
  \<open>self.plan\<close> follows the foreign key (\<open>on_delete=DO_NOTHING\<close>: the plan row may be
  gone). The \<open>assert\<close> stands before the transaction. Only
  \<open>ExtraPackage.DoesNotExist\<close> is caught by the \<open>except\<close> clause.
\<close>

definition update_package_quantity ::
  "subscription \<Rightarrow> nat \<Rightarrow> int \<Rightarrow> datetime \<Rightarrow> db \<Rightarrow> (error + extra_package option) \<times> db" where
  "update_package_quantity self package_type qty now d0 =
     (case get Plan_DoesNotExist Plan_MultipleObjectsReturned
             (filter (\<lambda>p. plan_pk p = Some (plan_id self)) (plans d0)) of
        Inl e \<Rightarrow> (Inl e, d0)
      | Inr self_plan \<Rightarrow>
          if \<not> is_premium self_plan
          then (Inl (AssertionError ''Only premium accounts can have additional packages!''), d0)
          else atomic (\<lambda>d.
                 case close_old_package self package_type now d of
                   Inl e \<Rightarrow>
                     if e = ExtraPackage_DoesNotExist
                     then create_new_package self package_type qty now d
                     else (Inl e, d)
                 | Inr d1 \<Rightarrow> create_new_package self package_type qty now d1) d0)"

section \<open>Plan\<close>

text \<open>
  \<open>models.Model.save\<close> on a plan: an UPDATE of the row with the primary key of the
  instance when there is one, an INSERT otherwise, with the next value of the sequence
  as key when the instance has none; the primary key and \<open>code\<close> are unique. The
  saved instance (with its key) is returned next to the database.
\<close>

definition super_save :: "plan \<Rightarrow> db \<Rightarrow> (error + plan) \<times> db" where
  "super_save self d =
     (let rows = plans d;
          stored = (case plan_pk self of
                      None \<Rightarrow> False
                    | Some k \<Rightarrow> list_ex (\<lambda>p. plan_pk p = Some k) rows)
      in if stored
         then (if list_ex (\<lambda>p. plan_pk p \<noteq> plan_pk self \<and> code p = code self) rows
               then (Inl IntegrityError, d)
               else (Inr self,
                     d\<lparr>plans := map (\<lambda>p. if plan_pk p = plan_pk self then self else p) rows\<rparr>))
         else
           let d1 = (case plan_pk self of
                       None \<Rightarrow> d\<lparr>plan_id_seq := Suc (plan_id_seq d)\<rparr>
                     | Some k \<Rightarrow> d);
               row = (case plan_pk self of
                        None \<Rightarrow> self\<lparr>plan_pk := Some (Suc (plan_id_seq d))\<rparr>
                      | Some k \<Rightarrow> self)
           in if list_ex (\<lambda>p. plan_pk p = plan_pk row \<or> code p = code self) rows
              then (Inl IntegrityError, d1)
              else (Inr row, d1\<lparr>plans := rows @ [row]\<rparr>))"

text \<open>
  The first statement of the transaction in \<open>Plan.save\<close>:
  \<open>if self.is_default: Plan.objects.filter(user_type=self.user_type).update(is_default=False)\<close>.
\<close>

definition unset_default :: "plan \<Rightarrow> plan list \<Rightarrow> plan list" where
  "unset_default self rows =
     (if is_default self
      then map (\<lambda>p. if user_type p = user_type self then p\<lparr>is_default := False\<rparr> else p) rows
      else rows)"

text \<open>\<open>Plan.save\<close>.\<close>

definition Plan_save :: "plan \<Rightarrow> db \<Rightarrow> (error + plan) \<times> db" where
  "Plan_save self d0 =
     (if user_type self \<noteq> PERSON \<and> user_type self \<noteq> ORGANIZATION
      then (Inl (ValidationError
                  (''Only '' @ [CHR 0x22] @ ''PERSON'' @ [CHR 0x22] @ '' and '' @ [CHR 0x22] @
                   ''ORGANIZATION'' @ [CHR 0x22] @ '' user types are allowed.'')), d0)
      else atomic (\<lambda>d. super_save self (d\<lparr>plans := unset_default self (plans d)\<rparr>)) d0)"

text \<open>
  \<open>Plan.objects.create(code, display_name, is_default, is_public, user_type)\<close>: a new
  instance with the field defaults, saved through \<open>Plan.save\<close>.
\<close>

definition Plan_objects_create ::
  "string \<Rightarrow> string \<Rightarrow> bool \<Rightarrow> bool \<Rightarrow> user_type \<Rightarrow> db \<Rightarrow> (error + plan) \<times> db" where
  "Plan_objects_create c name dflt pub ut d =
     Plan_save \<lparr>plan_pk = None, code = c, user_type = ut, display_name = name,
                storage_mb = 10, is_public = pub, is_default = dflt, is_premium = False\<rparr> d"

text \<open>
  \<open>order_by("-is_default").first()\<close>: the default plans come first; rows that compare
  equal keep the order of the table.
\<close>

definition order_by_is_default_desc_first :: "plan list \<Rightarrow> plan option" where
  "order_by_is_default_desc_first rows =
     (case filter is_default rows @ filter (\<lambda>p. \<not> is_default p) rows of
        [] \<Rightarrow> None
      | p # _ \<Rightarrow> Some p)"

text \<open>\<open>Plan.get_or_create_default\<close>.\<close>

definition create_default_plans :: "db \<Rightarrow> (error + plan) \<times> db" where
  "create_default_plans =
     atomic (\<lambda>d.
       case Plan_objects_create ''default_user'' ''default user (autocreated)''
              True False PERSON d of
         (Inl e, d1) \<Rightarrow> (Inl e, d1)
       | (Inr _, d1) \<Rightarrow>
           Plan_objects_create ''default_org'' ''default organization (autocreated)''
             True False ORGANIZATION d1)"

definition get_or_create_default :: "db \<Rightarrow> (error + plan option) \<times> db" where
  "get_or_create_default d =
     (if length (plans d) = 0
      then (case create_default_plans d of
              (Inl e, d') \<Rightarrow> (Inl e, d')
            | (Inr _, d') \<Rightarrow> (Inr (order_by_is_default_desc_first (plans d')), d'))
      else (Inr (order_by_is_default_desc_first (plans d)), d))"

text \<open>The invariant on the plan table: no user type has two default plans.\<close>

definition one_default_per_user_type :: "plan list \<Rightarrow> bool" where
  "one_default_per_user_type rows =
     list_all (\<lambda>p. length (filter (\<lambda>q. user_type q = user_type p \<and> is_default q) rows) \<le> 1) rows"

section \<open>Serializer choice fields\<close>

text \<open>
  \<open>self._choices\<close> of a \<open>ChoiceField\<close> is an ordered dictionary from internal code to
  display label: a list of pairs in insertion order, read with \<open>map_of\<close>. The
  \<open>ValidationError\<close> of the serializers carries the message with its placeholder and
  the list that \<open>format\<close> puts there.
\<close>

datatype 'v serializers_error = Serializers_ValidationError string "'v list"

fun find_code :: "'k list \<Rightarrow> ('k \<rightharpoonup> 'v) \<Rightarrow> 'v \<Rightarrow> 'k option" where
  "find_code [] choices data = None"
| "find_code (i # rest) choices data =
     (if choices i = Some data then Some i else find_code rest choices data)"

definition dict_values :: "('k \<times> 'v) list \<Rightarrow> 'v list" where
  "dict_values choices = map snd choices"

definition RoleChoiceField_to_internal_value ::
  "('k \<times> 'v) list \<Rightarrow> 'v \<Rightarrow> 'v serializers_error + 'k" where
  "RoleChoiceField_to_internal_value choices data =
     (case find_code (map fst choices) (map_of choices) data of
        Some i \<Rightarrow> Inr i
      | None \<Rightarrow>
          Inl (Serializers_ValidationError ''Invalid role. Acceptable values are {0}.''
                 (dict_values choices)))"

definition StatusChoiceField_to_internal_value ::
  "('k \<times> 'v) list \<Rightarrow> 'v \<Rightarrow> 'v serializers_error + 'k" where
  "StatusChoiceField_to_internal_value choices data =
     (case find_code (map fst choices) (map_of choices) data of
        Some i \<Rightarrow> Inr i
      | None \<Rightarrow>
          Inl (Serializers_ValidationError ''Invalid status. Acceptable values are {0}.''
                 (dict_values choices)))"

section \<open>Python numbers\<close>










section \<open>Derived quantities\<close>


section \<open>Theorems\<close>

subsection \<open>Auxiliary facts\<close>

lemma keep_sequences_same: "keep_sequences d d = d"
  by (simp add: keep_sequences_def)

lemma range_overlaps_iff: "range_overlaps r1 r2 = (\<exists>t. range_contains r1 t \<and> range_contains r2 t)"
proof
  assume "range_overlaps r1 r2"
  then have "range_contains r1 (max (fst r1) (fst r2)) \<and> range_contains r2 (max (fst r1) (fst r2))"
    by (auto simp: range_overlaps_def range_contains_def below_upper_def max_def split: option.splits)
  then show "\<exists>t. range_contains r1 t \<and> range_contains r2 t" by blast
next
  assume "\<exists>t. range_contains r1 t \<and> range_contains r2 t"
  then show "range_overlaps r1 r2"
    by (auto simp: range_overlaps_def range_contains_def below_upper_def split: option.splits)
qed

lemma get_multiple: "2 \<le> length xs \<Longrightarrow> get dne mult xs = Inl mult"
  by (cases "(dne, mult, xs)" rule: get.cases) auto

lemma get_single: "(get dne mult xs = Inr x) = (xs = [x])"
  by (cases "(dne, mult, xs)" rule: get.cases) auto

lemma sub_id_foldl_setattr: "sub_id (foldl setattr s kwargs) = sub_id s"
proof (induction kwargs arbitrary: s)
  case Nil
  show ?case by simp
next
  case (Cons a kwargs)
  have "sub_id (setattr s a) = sub_id s" by (cases a) simp_all
  with Cons show ?case by simp
qed

lemma period_foldl_setattr:
  "status (foldl setattr s kwargs) = status s \<and>
   active_since (foldl setattr s kwargs) = active_since s \<and>
   active_until (foldl setattr s kwargs) = active_until s"
proof (induction kwargs arbitrary: s)
  case Nil
  show ?case by simp
next
  case (Cons a kwargs)
  have "status (setattr s a) = status s \<and> active_since (setattr s a) = active_since s \<and>
        active_until (setattr s a) = active_until s" by (cases a) simp_all
  with Cons show ?case by simp
qed

lemma filter_key_map:
  assumes "distinct (map key rows)" and "a \<in> set rows" and "\<And>s. key (f s) = key s"
  shows "filter (\<lambda>s. key s = key a) (map f rows) = [f a]"
  using assms(1,2)
proof (induction rows)
  case Nil
  then show ?case by simp
next
  case (Cons r rows)
  show ?case
  proof (cases "r = a")
    case True
    have "key a \<notin> key ` set rows" using Cons.prems(1) True by simp
    then have "\<forall>x\<in>set rows. key (f x) \<noteq> key a"
      unfolding assms(3) by (metis imageI)
    then have "filter (\<lambda>s. key s = key a) (map f rows) = []"
      by (simp add: filter_empty_conv)
    then show ?thesis using True assms(3) by simp
  next
    case False
    then have "a \<in> set rows" using Cons.prems(2) by simp
    moreover have "key r \<noteq> key a" using Cons.prems(1) \<open>a \<in> set rows\<close> by auto
    ultimately show ?thesis using Cons assms(3) by simp
  qed
qed

lemma sub_id_cancel_other_active: "sub_id (cancel_other_active now b since s) = sub_id s"
  by (simp add: cancel_other_active_def)

lemma update_subscription_Inr:
  assumes "update_subscription B st since until kwargs now d = (Inr B', d')"
  obtains B_row where
    "filter (\<lambda>s. sub_id s = sub_id B) (subscriptions d) = [B_row]"
    "B' = foldl setattr (B_row\<lparr>status := st, active_since := Some since, active_until := until\<rparr>) kwargs"
    "subscriptions d' = map (\<lambda>s. if sub_id s = sub_id B' then B' else s)
        (map (cancel_other_active now B_row since) (subscriptions d))"
    "prevent_overlaps (subscriptions d') = None"
    "\<not> list_ex attr_out_of_range kwargs"
  using assms
  by (auto simp: update_subscription_def atomic_def Let_def get_single
      split: sum.splits option.splits prod.splits if_splits)


text \<open>
  On a premium plan \<open>update_package_quantity\<close> reaches \<open>self.subscription\<close>,
  whose \<open>AttributeError\<close> is not caught: nothing is closed and nothing is created.
\<close>

lemma update_package_quantity_premium:
  assumes "filter (\<lambda>p. plan_pk p = Some (plan_id self)) (plans d) = [p]"
    and "is_premium p"
  shows "update_package_quantity self package_type qty now d = (Inl AttributeError, d)"
  using assms
  by (simp add: update_package_quantity_def atomic_def close_old_package_def
      self_subscription_def keep_sequences_same)

text \<open>
  What the constraint gives: in a table that passed the check, at every instant at most
  one row of an account has a period that contains the instant; and a call of
  \<open>update_subscription\<close> that raises leaves the database as it was.
\<close>

lemma conflicts_if_common_instant:
  assumes "account_id s = account_id u" and "period_contains s t" and "period_contains u t"
  shows "conflicts s u"
proof -
  from assms(2) obtain a where a: "active_since s = Some a" "range_contains (a, active_until s) t"
    by (auto simp: period_contains_def split: option.splits)
  from assms(3) obtain b where b: "active_since u = Some b" "range_contains (b, active_until u) t"
    by (auto simp: period_contains_def split: option.splits)
  have "range_overlaps (a, active_until s) (b, active_until u)"
    using a(2) b(2) range_overlaps_iff by blast
  then show ?thesis using a(1) b(1) assms(1) by (simp add: conflicts_def)
qed

lemma exclusion_holds_one_period:
  "exclusion_holds rows \<Longrightarrow>
   length (filter (\<lambda>s. account_id s = acc \<and> period_contains s t) rows) \<le> 1"
proof (induction rows)
  case Nil
  show ?case by simp
next
  case (Cons r rows)
  then have none: "list_all (\<lambda>u. \<not> conflicts r u) rows" and rest: "exclusion_holds rows"
    by simp_all
  show ?case
  proof (cases "account_id r = acc \<and> period_contains r t")
    case True
    have "\<forall>u\<in>set rows. \<not> (account_id u = acc \<and> period_contains u t)"
    proof
      fix u assume "u \<in> set rows"
      then have "\<not> conflicts r u" using none by (simp add: list_all_iff)
      then show "\<not> (account_id u = acc \<and> period_contains u t)"
        using True conflicts_if_common_instant [of r u t] by auto
    qed
    then have "filter (\<lambda>s. account_id s = acc \<and> period_contains s t) rows = []"
      by (simp add: filter_empty_conv)
    then show ?thesis using True by simp
  next
    case False
    then have "filter (\<lambda>s. account_id s = acc \<and> period_contains s t) (r # rows) =
               filter (\<lambda>s. account_id s = acc \<and> period_contains s t) rows"
      by auto
    then show ?thesis using Cons.IH [OF rest] by simp
  qed
qed

lemma update_subscription_one_period:
  assumes "update_subscription B st since until kwargs now d = (Inr B', d')"
  shows "length (filter (\<lambda>s. account_id s = acc \<and> period_contains s t) (subscriptions d')) \<le> 1"
proof -
  from assms have "prevent_overlaps (subscriptions d') = None"
    by (rule update_subscription_Inr)
  then have "exclusion_holds (subscriptions d')"
    by (simp add: prevent_overlaps_def split: if_splits)
  then show ?thesis by (rule exclusion_holds_one_period)
qed

lemma atomic_rolls_back:
  assumes "atomic body d = (Inl e, d')"
  shows "plans d' = plans d \<and> subscriptions d' = subscriptions d \<and> packages d' = packages d"
  using assms
  by (auto simp: atomic_def keep_sequences_def split: prod.splits sum.splits)

lemma update_subscription_all_or_nothing:
  assumes "update_subscription B st since until kwargs now d = (Inl e, d')"
  shows "d' = d"
  using assms
  by (auto simp: update_subscription_def atomic_def keep_sequences_def Let_def
      split: sum.splits option.splits prod.splits if_splits)

lemma Plan_save_all_or_nothing:
  assumes "Plan_save self d = (Inl e, d')"
  shows "plans d' = plans d \<and> subscriptions d' = subscriptions d \<and> packages d' = packages d"
  using assms unfolding Plan_save_def
  by (auto dest: atomic_rolls_back split: if_splits)


text \<open>The loop of the choice fields.\<close>

lemma find_code_None: "(find_code ks m data = None) = (\<forall>i\<in>set ks. m i \<noteq> Some data)"
  by (induction ks) auto

lemma find_code_Some: "find_code ks m data = Some i \<Longrightarrow> i \<in> set ks \<and> m i = Some data"
  by (induction ks) (auto split: if_splits)

lemma find_code_unknown_label:
  assumes "data \<notin> set (map snd choices)"
  shows "find_code (map fst choices) (map_of choices) data = None"
proof -
  have "map_of choices i \<noteq> Some data" for i
  proof
    assume "map_of choices i = Some data"
    then have "(i, data) \<in> set choices" by (rule map_of_SomeD)
    then have "data \<in> set (map snd choices)" by force
    with assms show False by simp
  qed
  then show ?thesis by (simp add: find_code_None)
qed

lemma find_code_known_label:
  assumes "distinct (map fst choices)" and "data \<in> set (map snd choices)"
  shows "\<exists>i. find_code (map fst choices) (map_of choices) data = Some i \<and> (i, data) \<in> set choices"
proof -
  from assms(2) obtain k where k: "(k, data) \<in> set choices" by auto
  with assms(1) have "map_of choices k = Some data" by simp
  moreover have "k \<in> set (map fst choices)" using k by force
  ultimately have "find_code (map fst choices) (map_of choices) data \<noteq> None"
    by (auto simp: find_code_None)
  then obtain i where i: "find_code (map fst choices) (map_of choices) data = Some i" by auto
  then have "map_of choices i = Some data" by (auto dest: find_code_Some)
  then have "(i, data) \<in> set choices" by (rule map_of_SomeD)
  with i show ?thesis by blast
qed

text \<open>
  The plan table: what \<open>Plan.save\<close> and \<open>Plan.get_or_create_default\<close> do to the
  number of default plans of a user type.
\<close>

lemma one_default_per_user_type_iff:
  "one_default_per_user_type rows =
     (\<forall>t. length (filter (\<lambda>q. user_type q = t \<and> is_default q) rows) \<le> 1)"
proof
  assume inv: "one_default_per_user_type rows"
  show "\<forall>t. length (filter (\<lambda>q. user_type q = t \<and> is_default q) rows) \<le> 1"
  proof
    fix t
    show "length (filter (\<lambda>q. user_type q = t \<and> is_default q) rows) \<le> 1"
    proof (cases "filter (\<lambda>q. user_type q = t \<and> is_default q) rows")
      case Nil
      then show ?thesis by simp
    next
      case (Cons p ps)
      then have "p \<in> set (filter (\<lambda>q. user_type q = t \<and> is_default q) rows)" by simp
      then have "p \<in> set rows" and "user_type p = t" by simp_all
      with inv show ?thesis by (auto simp: one_default_per_user_type_def list_all_iff)
    qed
  qed
next
  assume "\<forall>t. length (filter (\<lambda>q. user_type q = t \<and> is_default q) rows) \<le> 1"
  then show "one_default_per_user_type rows"
    by (simp add: one_default_per_user_type_def list_all_iff)
qed

lemma filter_unset_same:
  "filter (\<lambda>q. user_type q = T \<and> is_default q)
     (map (\<lambda>p. if user_type p = T then p\<lparr>is_default := False\<rparr> else p) rows) = []"
  by (induction rows) auto

lemma filter_unset_other:
  "t \<noteq> T \<Longrightarrow>
   filter (\<lambda>q. user_type q = t \<and> is_default q)
     (map (\<lambda>p. if user_type p = T then p\<lparr>is_default := False\<rparr> else p) rows)
   = filter (\<lambda>q. user_type q = t \<and> is_default q) rows"
  by (induction rows) auto

lemma length_filter_replace:
  assumes "distinct (map key rows)"
  shows "length (filter P (map (\<lambda>p. if key p = k then self else p) rows))
           \<le> length (filter P rows) + (if P self then 1 else 0)"
  using assms
proof (induction rows)
  case Nil
  show ?case by simp
next
  case (Cons r rows)
  show ?case
  proof (cases "key r = k")
    case True
    have "key r \<notin> key ` set rows" using Cons.prems by simp
    then have "\<forall>p\<in>set rows. key p \<noteq> k" unfolding True [symmetric] by (metis imageI)
    then have "map (\<lambda>p. if key p = k then self else p) rows = rows"
      by (simp add: map_idI)
    then show ?thesis using True by simp
  next
    case False
    then have "length (filter P (map (\<lambda>p. if key p = k then self else p) (r # rows))) =
        (if P r then 1 else 0) + length (filter P (map (\<lambda>p. if key p = k then self else p) rows))"
      by simp
    moreover have "length (filter P (r # rows)) = (if P r then 1 else 0) + length (filter P rows)"
      by simp
    moreover have "length (filter P (map (\<lambda>p. if key p = k then self else p) rows))
           \<le> length (filter P rows) + (if P self then 1 else 0)"
      using Cons by simp
    ultimately show ?thesis by linarith
  qed
qed

lemma length_filter_replace_not:
  "\<not> P self \<Longrightarrow>
   length (filter P (map (\<lambda>p. if key p = k then self else p) rows)) \<le> length (filter P rows)"
  by (induction rows) auto

lemma super_save_Inr:
  assumes "super_save self d = (Inr saved, d')"
  shows "(saved = self \<and>
           plans d' = map (\<lambda>p. if plan_pk p = plan_pk self then self else p) (plans d))
         \<or> (plans d' = plans d @ [saved] \<and> user_type saved = user_type self \<and>
              is_default saved = is_default self)"
  using assms
  by (auto simp: super_save_def Let_def split: if_splits option.splits)

lemma Plan_save_Inr:
  assumes "Plan_save self d = (Inr saved, d')"
  shows "super_save self (d\<lparr>plans := unset_default self (plans d)\<rparr>) = (Inr saved, d')"
  using assms
  by (auto simp: Plan_save_def atomic_def split: if_splits prod.splits sum.splits)

lemma unset_default_count:
  "length (filter (\<lambda>q. user_type q = t \<and> is_default q) (unset_default self rows))
     \<le> length (filter (\<lambda>q. user_type q = t \<and> is_default q) rows)"
  by (cases "t = user_type self") (simp_all add: unset_default_def filter_unset_same filter_unset_other)

lemma unset_default_none:
  "is_default self \<Longrightarrow>
   filter (\<lambda>q. user_type q = user_type self \<and> is_default q) (unset_default self rows) = []"
  by (simp add: unset_default_def filter_unset_same)

lemma unset_default_keys: "map plan_pk (unset_default self rows) = map plan_pk rows"
  by (simp add: unset_default_def o_def if_distrib cong: if_cong)

lemma Plan_save_count:
  assumes keys: "distinct (map plan_pk (plans d))"
    and inv: "length (filter (\<lambda>q. user_type q = t \<and> is_default q) (plans d)) \<le> 1"
    and ok: "Plan_save self d = (Inr saved, d')"
  shows "length (filter (\<lambda>q. user_type q = t \<and> is_default q) (plans d')) \<le> 1"
proof -
  let ?P = "\<lambda>q. user_type q = t \<and> is_default q"
  let ?rows1 = "unset_default self (plans d)"
  have c1: "length (filter ?P ?rows1) \<le> 1"
    using unset_default_count [of t self "plans d"] inv by simp
  have zero: "length (filter ?P ?rows1) = 0" if "?P self"
  proof -
    from that have "is_default self" and "t = user_type self" by simp_all
    then show ?thesis using unset_default_none [of self "plans d"] by simp
  qed
  have bound: "length (filter ?P ?rows1) + (if ?P self then 1 else 0) \<le> 1"
  proof (cases "?P self")
    case True
    then have "length (filter ?P ?rows1) = 0" by (rule zero)
    moreover have "(if ?P self then 1 else 0) = (1::nat)" using True by auto
    ultimately show ?thesis by linarith
  next
    case False
    then have "(if ?P self then 1 else 0) = (0::nat)" by auto
    then show ?thesis using c1 by linarith
  qed
  have d1: "distinct (map plan_pk ?rows1)" using keys by (simp add: unset_default_keys)
  from Plan_save_Inr [OF ok] have "super_save self (d\<lparr>plans := ?rows1\<rparr>) = (Inr saved, d')" .
  from super_save_Inr [OF this]
  consider (upd) "plans d' = map (\<lambda>p. if plan_pk p = plan_pk self then self else p) ?rows1"
    | (ins) "plans d' = ?rows1 @ [saved]" "user_type saved = user_type self"
        "is_default saved = is_default self"
    by auto
  then show ?thesis
  proof cases
    case upd
    have "length (filter ?P (plans d')) \<le> length (filter ?P ?rows1) + (if ?P self then 1 else 0)"
      unfolding upd using d1 by (rule length_filter_replace)
    with bound show ?thesis by simp
  next
    case ins
    have "length (filter ?P (plans d')) = length (filter ?P ?rows1) + (if ?P self then 1 else 0)"
      using ins by simp
    with bound show ?thesis by simp
  qed
qed

lemma Plan_save_unsets_others:
  assumes dflt: "is_default self"
    and ok: "Plan_save self d = (Inr saved, d')"
    and p: "p \<in> set (plans d')" "user_type p = user_type self" "is_default p"
  shows "p = saved"
proof -
  let ?rows1 = "unset_default self (plans d)"
  have none: "q \<in> set ?rows1 \<Longrightarrow> \<not> (user_type q = user_type self \<and> is_default q)" for q
    using unset_default_none [OF dflt, of "plans d"] by (simp add: filter_empty_conv)
  from Plan_save_Inr [OF ok] have "super_save self (d\<lparr>plans := ?rows1\<rparr>) = (Inr saved, d')" .
  from super_save_Inr [OF this]
  consider (upd) "saved = self" "plans d' = map (\<lambda>p. if plan_pk p = plan_pk self then self else p) ?rows1"
    | (ins) "plans d' = ?rows1 @ [saved]"
    by auto
  then show ?thesis
  proof cases
    case upd
    from p(1) obtain q where "q \<in> set ?rows1" "p = (if plan_pk q = plan_pk self then self else q)"
      unfolding upd(2) by auto
    then show ?thesis using none [of q] p(2,3) upd(1) by (auto split: if_splits)
  next
    case ins
    with p(1) have "p \<in> set ?rows1 \<or> p = saved" by auto
    then show ?thesis using none [of p] p(2,3) by blast
  qed
qed


lemma get_or_create_default_db:
  "snd (get_or_create_default d) =
     (if plans d = []
      then d\<lparr>plan_id_seq := Suc (Suc (plan_id_seq d)),
             plans :=
             [\<lparr>plan_pk = Some (Suc (plan_id_seq d)), code = ''default_user'', user_type = PERSON,
                display_name = ''default user (autocreated)'', storage_mb = 10,
                is_public = False, is_default = True, is_premium = False\<rparr>,
              \<lparr>plan_pk = Some (Suc (Suc (plan_id_seq d))), code = ''default_org'', user_type = ORGANIZATION,
                display_name = ''default organization (autocreated)'', storage_mb = 10,
                is_public = False, is_default = True, is_premium = False\<rparr>]\<rparr>
      else d)"
proof (cases "plans d = []")
  case True
  have one: "Plan_objects_create ''default_user'' ''default user (autocreated)'' True False PERSON d =
      (Inr \<lparr>plan_pk = Some (Suc (plan_id_seq d)), code = ''default_user'', user_type = PERSON,
                display_name = ''default user (autocreated)'', storage_mb = 10,
                is_public = False, is_default = True, is_premium = False\<rparr>,
       d\<lparr>plan_id_seq := Suc (plan_id_seq d),
         plans := [\<lparr>plan_pk = Some (Suc (plan_id_seq d)), code = ''default_user'', user_type = PERSON,
                display_name = ''default user (autocreated)'', storage_mb = 10,
                is_public = False, is_default = True, is_premium = False\<rparr>]\<rparr>)"
    using True
    by (simp add: Plan_objects_create_def Plan_save_def atomic_def super_save_def
        unset_default_def Let_def)
  have two: "Plan_objects_create ''default_org'' ''default organization (autocreated)'' True False
        ORGANIZATION
        (d\<lparr>plan_id_seq := Suc (plan_id_seq d),
           plans := [\<lparr>plan_pk = Some (Suc (plan_id_seq d)), code = ''default_user'', user_type = PERSON,
                display_name = ''default user (autocreated)'', storage_mb = 10,
                is_public = False, is_default = True, is_premium = False\<rparr>]\<rparr>) =
      (Inr \<lparr>plan_pk = Some (Suc (Suc (plan_id_seq d))), code = ''default_org'', user_type = ORGANIZATION,
                display_name = ''default organization (autocreated)'', storage_mb = 10,
                is_public = False, is_default = True, is_premium = False\<rparr>,
       d\<lparr>plan_id_seq := Suc (Suc (plan_id_seq d)),
         plans := [\<lparr>plan_pk = Some (Suc (plan_id_seq d)), code = ''default_user'', user_type = PERSON,
                display_name = ''default user (autocreated)'', storage_mb = 10,
                is_public = False, is_default = True, is_premium = False\<rparr>,
              \<lparr>plan_pk = Some (Suc (Suc (plan_id_seq d))), code = ''default_org'', user_type = ORGANIZATION,
                display_name = ''default organization (autocreated)'', storage_mb = 10,
                is_public = False, is_default = True, is_premium = False\<rparr>]\<rparr>)"
    by (simp add: Plan_objects_create_def Plan_save_def atomic_def super_save_def
        unset_default_def Let_def)
  show ?thesis
    using True by (simp add: get_or_create_default_def create_default_plans_def atomic_def one two)
next
  case False
  then show ?thesis by (simp add: get_or_create_default_def)
qed


lemma get_or_create_default_keeps_invariant:
  assumes "one_default_per_user_type (plans d)"
  shows "one_default_per_user_type (plans (snd (get_or_create_default d)))"
proof (cases "plans d = []")
  case True
  then show ?thesis
    by (simp add: get_or_create_default_db one_default_per_user_type_def)
next
  case False
  then show ?thesis using assms by (simp add: get_or_create_default_db)
qed

lemma get_or_create_default_idempotent:
  "snd (get_or_create_default (snd (get_or_create_default d))) = snd (get_or_create_default d)"
  by (simp add: get_or_create_default_db)

lemma get_or_create_default_repeated:
  "one_default_per_user_type (plans d) \<Longrightarrow>
   one_default_per_user_type (plans (((\<lambda>x. snd (get_or_create_default x)) ^^ n) d))"
  by (induction n) (simp_all add: get_or_create_default_keeps_invariant)

lemma Plan_save_keeps_invariant:
  assumes "distinct (map plan_pk (plans d))" and "one_default_per_user_type (plans d)"
    and "Plan_save self d = (Inr saved, d')"
  shows "one_default_per_user_type (plans d')"
  unfolding one_default_per_user_type_iff
proof
  fix t
  have "length (filter (\<lambda>q. user_type q = t \<and> is_default q) (plans d)) \<le> 1"
    using assms(2) by (simp add: one_default_per_user_type_iff)
  with assms(1) show "length (filter (\<lambda>q. user_type q = t \<and> is_default q) (plans d')) \<le> 1"
    using assms(3) by (rule Plan_save_count)
qed













subsection \<open>Claims\<close>




text \<open>
  C2, as the code has it: in a table with one row per primary key, let \<open>A\<close> be a
  subscription that is active at \<open>now\<close> and \<open>B\<close> another subscription of the same
  account. The call \<open>update_subscription(B, status, active_since, active_until)\<close>
  returns exactly when the exclusion constraint accepts the table after the close-out
  (\<open>rows1\<close>) and the table after the update of \<open>B\<close> (\<open>rows2\<close>); otherwise it
  raises and the database is unchanged. In the table \<open>rows2\<close> that a returning call
  stores, \<open>A\<close> has \<open>active_until\<close> equal to the given \<open>active_since\<close> and the
  status \<open>INACTIVE_CANCELLED\<close>, and \<open>B\<close> carries the given status,
  \<open>active_since\<close> and \<open>active_until\<close>.
\<close>

theorem update_subscription_returns_and_closes:
  assumes ids: "distinct (map sub_id (subscriptions d))"
    and A: "A \<in> set (subscriptions d)" "active_since A = Some a" "a \<le> now"
      "(case active_until A of None \<Rightarrow> True | Some u \<Rightarrow> now \<le> u)"
    and row: "B_row \<in> set (subscriptions d)" "sub_id B_row = sub_id B"
    and acc: "account_id A = account_id B_row"
    and diff: "sub_id A \<noteq> sub_id B"
    and rows1: "rows1 =
        map (\<lambda>s. if (case active_since s of None \<Rightarrow> False | Some x \<Rightarrow> x \<le> now) \<and>
                    (case active_until s of None \<Rightarrow> True | Some u \<Rightarrow> now \<le> u) \<and>
                    account_id s = account_id B_row \<and> sub_id s \<noteq> sub_id B
                 then s\<lparr>status := INACTIVE_CANCELLED, active_until := Some since\<rparr>
                 else s)
          (subscriptions d)"
    and B': "B' = B_row\<lparr>status := st, active_since := Some since, active_until := until\<rparr>"
    and rows2: "rows2 = map (\<lambda>s. if sub_id s = sub_id B then B' else s) rows1"
  shows "(if prevent_overlaps rows1 = None \<and> prevent_overlaps rows2 = None
          then update_subscription B st since until [] now d =
                 (Inr B', d\<lparr>subscriptions := rows2\<rparr>)
          else (\<exists>e. update_subscription B st since until [] now d = (Inl e, d)))
         \<and> filter (\<lambda>s. sub_id s = sub_id A) rows2 =
             [A\<lparr>status := INACTIVE_CANCELLED, active_until := Some since\<rparr>]
         \<and> filter (\<lambda>s. sub_id s = sub_id B) rows2 = [B']"
proof -
  have "filter (\<lambda>s. sub_id s = sub_id B_row) (map (\<lambda>s. s) (subscriptions d)) = [B_row]"
    using ids row(1) by (rule filter_key_map) simp
  then have g: "get Subscription_DoesNotExist Subscription_MultipleObjectsReturned
      (filter (\<lambda>s. sub_id s = sub_id B) (subscriptions d)) = Inr B_row"
    using row(2) by simp
  have idB': "sub_id B' = sub_id B" using B' row(2) by simp
  have "cancel_other_active now B_row since =
      (\<lambda>s. if (case active_since s of None \<Rightarrow> False | Some x \<Rightarrow> x \<le> now) \<and>
                    (case active_until s of None \<Rightarrow> True | Some u \<Rightarrow> now \<le> u) \<and>
                    account_id s = account_id B_row \<and> sub_id s \<noteq> sub_id B
                 then s\<lparr>status := INACTIVE_CANCELLED, active_until := Some since\<rparr>
                 else s)"
    using row(2) by (simp add: fun_eq_iff cancel_other_active_def subscription_is_active_def)
  with rows1 have rows1: "rows1 = map (cancel_other_active now B_row since) (subscriptions d)"
    by simp
  have call: "update_subscription B st since until [] now d =
      (case prevent_overlaps rows1 of
         Some e \<Rightarrow> (Inl e, d)
       | None \<Rightarrow>
           (case prevent_overlaps rows2 of
              Some e \<Rightarrow> (Inl e, d)
            | None \<Rightarrow> (Inr B', d\<lparr>subscriptions := rows2\<rparr>)))"
    using g idB' B' [symmetric] rows1 [symmetric] rows2 [symmetric]
    by (simp add: update_subscription_def atomic_def keep_sequences_def Let_def
        split: option.splits)
  have first: "if prevent_overlaps rows1 = None \<and> prevent_overlaps rows2 = None
          then update_subscription B st since until [] now d =
                 (Inr B', d\<lparr>subscriptions := rows2\<rparr>)
          else (\<exists>e. update_subscription B st since until [] now d = (Inl e, d))"
    unfolding call by (auto split: option.splits)
  let ?f = "\<lambda>s. (if sub_id (cancel_other_active now B_row since s) = sub_id B then B'
                  else cancel_other_active now B_row since s)"
  have key: "sub_id (?f s) = sub_id s" for s
    using idB' by (simp add: sub_id_cancel_other_active)
  have r2: "rows2 = map ?f (subscriptions d)"
    unfolding rows2 rows1 by (simp add: o_def)
  have Aact: "subscription_is_active now A"
    using A(2,3,4) by (simp add: subscription_is_active_def)
  have "filter (\<lambda>s. sub_id s = sub_id A) (map ?f (subscriptions d)) = [?f A]"
    using ids A(1) key by (rule filter_key_map)
  moreover have "?f A = A\<lparr>status := INACTIVE_CANCELLED, active_until := Some since\<rparr>"
    using Aact acc diff row(2) by (simp add: cancel_other_active_def)
  ultimately have second: "filter (\<lambda>s. sub_id s = sub_id A) rows2 =
           [A\<lparr>status := INACTIVE_CANCELLED, active_until := Some since\<rparr>]"
    using r2 by simp
  have "filter (\<lambda>s. sub_id s = sub_id B_row) (map ?f (subscriptions d)) = [?f B_row]"
    using ids row(1) key by (rule filter_key_map)
  moreover have "?f B_row = B'"
    using row(2) by (simp add: sub_id_cancel_other_active)
  ultimately have third: "filter (\<lambda>s. sub_id s = sub_id B) rows2 = [B']"
    using r2 row(2) by simp
  from first second third show ?thesis by blast
qed

text \<open>
  The instance of the claim: \<open>A\<close> active since 2023-01-01 without end, \<open>B\<close>
  activated at 2023-06-01 (the call is made on 2023-05-31). The account also has a
  subscription that ended on 2023-01-01, and another account has an active one; both
  rows stay as they are. The call returns, \<open>A\<close> ends at 2023-06-01 with the stored
  status \<open>inactive_cancelled\<close>.
\<close>

theorem update_subscription_returns_and_closes_witness:
  "update_subscription
      \<lparr>sub_id = 2, plan_id = 1, account_id = 7, storage_quantity = 0, status = INACTIVE_DRAFT,
        created_by_id = 7, requested_cancel_at = None, active_since = None, active_until = None\<rparr>
      ACTIVE_PAID 1685577600000000 None [] 1685491200000000
      \<lparr>plans = [],
      subscriptions = [\<lparr>sub_id = 3, plan_id = 1, account_id = 7, storage_quantity = 0, status = INACTIVE_CANCELLED,
        created_by_id = 7, requested_cancel_at = None, active_since = Some 1640995200000000, active_until = Some 1672531200000000\<rparr>,
        \<lparr>sub_id = 1, plan_id = 1, account_id = 7, storage_quantity = 0, status = ACTIVE_PAID,
        created_by_id = 7, requested_cancel_at = None, active_since = Some 1672531200000000, active_until = None\<rparr>,
        \<lparr>sub_id = 2, plan_id = 1, account_id = 7, storage_quantity = 0, status = INACTIVE_DRAFT,
        created_by_id = 7, requested_cancel_at = None, active_since = None, active_until = None\<rparr>,
        \<lparr>sub_id = 4, plan_id = 1, account_id = 8, storage_quantity = 0, status = ACTIVE_PAID,
        created_by_id = 8, requested_cancel_at = None, active_since = Some 1672531200000000, active_until = None\<rparr>],
      packages = [],
      plan_id_seq = 9, subscription_id_seq = 9, extrapackage_id_seq = 9\<rparr>
    = (Inr \<lparr>sub_id = 2, plan_id = 1, account_id = 7, storage_quantity = 0, status = ACTIVE_PAID,
        created_by_id = 7, requested_cancel_at = None, active_since = Some 1685577600000000, active_until = None\<rparr>,
       \<lparr>plans = [],
      subscriptions = [\<lparr>sub_id = 3, plan_id = 1, account_id = 7, storage_quantity = 0, status = INACTIVE_CANCELLED,
        created_by_id = 7, requested_cancel_at = None, active_since = Some 1640995200000000, active_until = Some 1672531200000000\<rparr>,
        \<lparr>sub_id = 1, plan_id = 1, account_id = 7, storage_quantity = 0, status = INACTIVE_CANCELLED,
        created_by_id = 7, requested_cancel_at = None, active_since = Some 1672531200000000, active_until = Some 1685577600000000\<rparr>,
        \<lparr>sub_id = 2, plan_id = 1, account_id = 7, storage_quantity = 0, status = ACTIVE_PAID,
        created_by_id = 7, requested_cancel_at = None, active_since = Some 1685577600000000, active_until = None\<rparr>,
        \<lparr>sub_id = 4, plan_id = 1, account_id = 8, storage_quantity = 0, status = ACTIVE_PAID,
        created_by_id = 8, requested_cancel_at = None, active_since = Some 1672531200000000, active_until = None\<rparr>],
      packages = [],
      plan_id_seq = 9, subscription_id_seq = 9, extrapackage_id_seq = 9\<rparr>)
   \<and> filter (\<lambda>s. sub_id s = 1)
        [\<lparr>sub_id = 3, plan_id = 1, account_id = 7, storage_quantity = 0, status = INACTIVE_CANCELLED,
        created_by_id = 7, requested_cancel_at = None, active_since = Some 1640995200000000, active_until = Some 1672531200000000\<rparr>,
         \<lparr>sub_id = 1, plan_id = 1, account_id = 7, storage_quantity = 0, status = INACTIVE_CANCELLED,
        created_by_id = 7, requested_cancel_at = None, active_since = Some 1672531200000000, active_until = Some 1685577600000000\<rparr>,
         \<lparr>sub_id = 2, plan_id = 1, account_id = 7, storage_quantity = 0, status = ACTIVE_PAID,
        created_by_id = 7, requested_cancel_at = None, active_since = Some 1685577600000000, active_until = None\<rparr>,
         \<lparr>sub_id = 4, plan_id = 1, account_id = 8, storage_quantity = 0, status = ACTIVE_PAID,
        created_by_id = 8, requested_cancel_at = None, active_since = Some 1672531200000000, active_until = None\<rparr>]
      = [\<lparr>sub_id = 1, plan_id = 1, account_id = 7, storage_quantity = 0, status = ACTIVE_PAID,
        created_by_id = 7, requested_cancel_at = None, active_since = Some 1672531200000000, active_until = None\<rparr>
          \<lparr>status := INACTIVE_CANCELLED, active_until := Some 1685577600000000\<rparr>]
   \<and> Status_value INACTIVE_CANCELLED = ''inactive_cancelled''"
proof -
  let ?A = "\<lparr>sub_id = 1, plan_id = 1, account_id = 7, storage_quantity = 0, status = ACTIVE_PAID,
        created_by_id = 7, requested_cancel_at = None, active_since = Some 1672531200000000, active_until = None\<rparr>"
  let ?B = "\<lparr>sub_id = 2, plan_id = 1, account_id = 7, storage_quantity = 0, status = INACTIVE_DRAFT,
        created_by_id = 7, requested_cancel_at = None, active_since = None, active_until = None\<rparr>"
  let ?old = "\<lparr>sub_id = 3, plan_id = 1, account_id = 7, storage_quantity = 0, status = INACTIVE_CANCELLED,
        created_by_id = 7, requested_cancel_at = None, active_since = Some 1640995200000000, active_until = Some 1672531200000000\<rparr>"
  let ?other = "\<lparr>sub_id = 4, plan_id = 1, account_id = 8, storage_quantity = 0, status = ACTIVE_PAID,
        created_by_id = 8, requested_cancel_at = None, active_since = Some 1672531200000000, active_until = None\<rparr>"
  let ?d = "\<lparr>plans = [],
      subscriptions = [\<lparr>sub_id = 3, plan_id = 1, account_id = 7, storage_quantity = 0, status = INACTIVE_CANCELLED,
        created_by_id = 7, requested_cancel_at = None, active_since = Some 1640995200000000, active_until = Some 1672531200000000\<rparr>,
        \<lparr>sub_id = 1, plan_id = 1, account_id = 7, storage_quantity = 0, status = ACTIVE_PAID,
        created_by_id = 7, requested_cancel_at = None, active_since = Some 1672531200000000, active_until = None\<rparr>,
        \<lparr>sub_id = 2, plan_id = 1, account_id = 7, storage_quantity = 0, status = INACTIVE_DRAFT,
        created_by_id = 7, requested_cancel_at = None, active_since = None, active_until = None\<rparr>,
        \<lparr>sub_id = 4, plan_id = 1, account_id = 8, storage_quantity = 0, status = ACTIVE_PAID,
        created_by_id = 8, requested_cancel_at = None, active_since = Some 1672531200000000, active_until = None\<rparr>],
      packages = [],
      plan_id_seq = 9, subscription_id_seq = 9, extrapackage_id_seq = 9\<rparr>"
  let ?A' = "?A\<lparr>status := INACTIVE_CANCELLED, active_until := Some 1685577600000000\<rparr>"
  let ?B' = "?B\<lparr>status := ACTIVE_PAID, active_since := Some 1685577600000000, active_until := None\<rparr>"
  let ?rows1 = "[?old, ?A', ?B, ?other]"
  let ?rows2 = "[?old, ?A', ?B', ?other]"
  have ids: "distinct (map sub_id (subscriptions ?d))" by simp
  have A: "?A \<in> set (subscriptions ?d)" "active_since ?A = Some 1672531200000000"
      "(1672531200000000 :: int) \<le> 1685491200000000"
      "(case active_until ?A of None \<Rightarrow> True | Some u \<Rightarrow> 1685491200000000 \<le> u)"
    by simp_all
  have row: "?B \<in> set (subscriptions ?d)" "sub_id ?B = sub_id ?B" by simp_all
  have acc: "account_id ?A = account_id ?B" by simp
  have diff: "sub_id ?A \<noteq> sub_id ?B" by simp
  have rows1: "?rows1 =
        map (\<lambda>s. if (case active_since s of None \<Rightarrow> False | Some x \<Rightarrow> x \<le> 1685491200000000) \<and>
                    (case active_until s of None \<Rightarrow> True | Some u \<Rightarrow> 1685491200000000 \<le> u) \<and>
                    account_id s = account_id ?B \<and> sub_id s \<noteq> sub_id ?B
                 then s\<lparr>status := INACTIVE_CANCELLED, active_until := Some 1685577600000000\<rparr>
                 else s)
          (subscriptions ?d)"
    by simp
  have B': "?B' = ?B\<lparr>status := ACTIVE_PAID, active_since := Some 1685577600000000, active_until := None\<rparr>"
    by simp
  have rows2: "?rows2 = map (\<lambda>s. if sub_id s = sub_id ?B then ?B' else s) ?rows1" by simp
  have accepted: "prevent_overlaps ?rows1 = None \<and> prevent_overlaps ?rows2 = None"
    by (simp add: prevent_overlaps_def range_error_row_def tstzrange_error_def conflicts_def range_overlaps_def below_upper_def cancel_other_active_def subscription_is_active_def)
  from update_subscription_returns_and_closes
      [OF ids A row acc diff rows1 B' rows2] accepted
  have "update_subscription ?B ACTIVE_PAID 1685577600000000 None [] 1685491200000000 ?d
          = (Inr ?B', ?d\<lparr>subscriptions := ?rows2\<rparr>)
        \<and> filter (\<lambda>s. sub_id s = sub_id ?A) ?rows2 = [?A']"
    by simp
  then show ?thesis by simp
qed

text \<open>
  C2 as the claim states it fails: \<open>A\<close> is active since 100 without end, \<open>B\<close> of the
  same account is activated with \<open>active_since = 50\<close> while the clock reads 200. The
  close-out would store \<open>A\<close> with the range \<open>tstzrange(100, 50)\<close>: the call raises
  \<open>DataError\<close> and the database, with \<open>A\<close> still open and paid, is unchanged.
\<close>

theorem update_subscription_raises_on_earlier_activation:
  "update_subscription
      \<lparr>sub_id = 2, plan_id = 1, account_id = 7, storage_quantity = 0, status = INACTIVE_DRAFT,
        created_by_id = 7, requested_cancel_at = None, active_since = None, active_until = None\<rparr>
      ACTIVE_PAID 50 None [] 200
      \<lparr>plans = [],
      subscriptions = [\<lparr>sub_id = 1, plan_id = 1, account_id = 7, storage_quantity = 0, status = ACTIVE_PAID,
        created_by_id = 7, requested_cancel_at = None, active_since = Some 100, active_until = None\<rparr>,
        \<lparr>sub_id = 2, plan_id = 1, account_id = 7, storage_quantity = 0, status = INACTIVE_DRAFT,
        created_by_id = 7, requested_cancel_at = None, active_since = None, active_until = None\<rparr>],
      packages = [],
      plan_id_seq = 9, subscription_id_seq = 9, extrapackage_id_seq = 9\<rparr>
    = (Inl DataError,
       \<lparr>plans = [],
      subscriptions = [\<lparr>sub_id = 1, plan_id = 1, account_id = 7, storage_quantity = 0, status = ACTIVE_PAID,
        created_by_id = 7, requested_cancel_at = None, active_since = Some 100, active_until = None\<rparr>,
        \<lparr>sub_id = 2, plan_id = 1, account_id = 7, storage_quantity = 0, status = INACTIVE_DRAFT,
        created_by_id = 7, requested_cancel_at = None, active_since = None, active_until = None\<rparr>],
      packages = [],
      plan_id_seq = 9, subscription_id_seq = 9, extrapackage_id_seq = 9\<rparr>)
   \<and> map (\<lambda>s. (sub_id s, status s, active_until s)) (subscriptions (snd
     (update_subscription
      \<lparr>sub_id = 2, plan_id = 1, account_id = 7, storage_quantity = 0, status = INACTIVE_DRAFT,
        created_by_id = 7, requested_cancel_at = None, active_since = None, active_until = None\<rparr>
      ACTIVE_PAID 50 None [] 200
      \<lparr>plans = [],
      subscriptions = [\<lparr>sub_id = 1, plan_id = 1, account_id = 7, storage_quantity = 0, status = ACTIVE_PAID,
        created_by_id = 7, requested_cancel_at = None, active_since = Some 100, active_until = None\<rparr>,
        \<lparr>sub_id = 2, plan_id = 1, account_id = 7, storage_quantity = 0, status = INACTIVE_DRAFT,
        created_by_id = 7, requested_cancel_at = None, active_since = None, active_until = None\<rparr>],
      packages = [],
      plan_id_seq = 9, subscription_id_seq = 9, extrapackage_id_seq = 9\<rparr>)))
     = [(1, ACTIVE_PAID, None), (2, INACTIVE_DRAFT, None)]"
  by (simp add: update_subscription_def atomic_def keep_sequences_def Let_def prevent_overlaps_def range_error_row_def tstzrange_error_def conflicts_def range_overlaps_def below_upper_def cancel_other_active_def subscription_is_active_def)




text \<open>
  C10: when two or more subscriptions of the account are active at \<open>now\<close>,
  \<open>get_or_create_active_subscription\<close> raises \<open>MultipleObjectsReturned\<close>; it
  returns none of them and creates nothing.
\<close>

theorem get_or_create_active_subscription_multiple:
  assumes "2 \<le> length (filter (\<lambda>s. account_id s = account_pk account)
                 (SubscriptionQuerySet_active now (subscriptions d)))"
  shows "get_or_create_active_subscription account now d
           = (Inl Subscription_MultipleObjectsReturned, d)"
  using get_multiple [OF assms, of Subscription_DoesNotExist Subscription_MultipleObjectsReturned]
  by (simp add: get_or_create_active_subscription_def)

theorem get_or_create_active_subscription_multiple_witness:
  "get_or_create_active_subscription \<lparr>account_pk = 7, user_id = 7, account_user_type = PERSON\<rparr> 10
     \<lparr>plans = [\<lparr>plan_pk = Some 1, code = ''free'', user_type = PERSON, display_name = ''free'',
        storage_mb = 10, is_public = False, is_default = True, is_premium = False\<rparr>],
      subscriptions = [\<lparr>sub_id = 1, plan_id = 1, account_id = 7, storage_quantity = 0, status = INACTIVE_CANCELLED,
        created_by_id = 7, requested_cancel_at = None, active_since = Some 0, active_until = Some 10\<rparr>,
        \<lparr>sub_id = 2, plan_id = 1, account_id = 7, storage_quantity = 0, status = ACTIVE_PAID,
        created_by_id = 7, requested_cancel_at = None, active_since = Some 10, active_until = None\<rparr>],
      packages = [],
      plan_id_seq = 9, subscription_id_seq = 9, extrapackage_id_seq = 9\<rparr>
   = (Inl Subscription_MultipleObjectsReturned,
     \<lparr>plans = [\<lparr>plan_pk = Some 1, code = ''free'', user_type = PERSON, display_name = ''free'',
        storage_mb = 10, is_public = False, is_default = True, is_premium = False\<rparr>],
      subscriptions = [\<lparr>sub_id = 1, plan_id = 1, account_id = 7, storage_quantity = 0, status = INACTIVE_CANCELLED,
        created_by_id = 7, requested_cancel_at = None, active_since = Some 0, active_until = Some 10\<rparr>,
        \<lparr>sub_id = 2, plan_id = 1, account_id = 7, storage_quantity = 0, status = ACTIVE_PAID,
        created_by_id = 7, requested_cancel_at = None, active_since = Some 10, active_until = None\<rparr>],
      packages = [],
      plan_id_seq = 9, subscription_id_seq = 9, extrapackage_id_seq = 9\<rparr>)"
  using get_or_create_active_subscription_multiple
      [where account = "\<lparr>account_pk = 7, user_id = 7, account_user_type = PERSON\<rparr>" and now = 10
         and d = "\<lparr>plans = [\<lparr>plan_pk = Some 1, code = ''free'', user_type = PERSON, display_name = ''free'',
        storage_mb = 10, is_public = False, is_default = True, is_premium = False\<rparr>],
      subscriptions = [\<lparr>sub_id = 1, plan_id = 1, account_id = 7, storage_quantity = 0, status = INACTIVE_CANCELLED,
        created_by_id = 7, requested_cancel_at = None, active_since = Some 0, active_until = Some 10\<rparr>,
        \<lparr>sub_id = 2, plan_id = 1, account_id = 7, storage_quantity = 0, status = ACTIVE_PAID,
        created_by_id = 7, requested_cancel_at = None, active_since = Some 10, active_until = None\<rparr>],
      packages = [],
      plan_id_seq = 9, subscription_id_seq = 9, extrapackage_id_seq = 9\<rparr>"]
  by (simp add: SubscriptionQuerySet_active_def subscription_is_active_def prevent_overlaps_def range_error_row_def tstzrange_error_def conflicts_def range_overlaps_def below_upper_def)

text \<open>
  C7: on a subscription whose plan is not premium, \<open>update_package_quantity\<close> raises
  \<open>AssertionError\<close> for every package type and quantity, and the database is
  unchanged.
\<close>

theorem update_package_quantity_not_premium:
  assumes "filter (\<lambda>p. plan_pk p = Some (plan_id self)) (plans d) = [p]"
    and "\<not> is_premium p"
  shows "update_package_quantity self package_type qty now d
           = (Inl (AssertionError ''Only premium accounts can have additional packages!''), d)"
  using assms by (simp add: update_package_quantity_def)

theorem update_package_quantity_not_premium_witness:
  "update_package_quantity \<lparr>sub_id = 1, plan_id = 1, account_id = 7, storage_quantity = 0, status = ACTIVE_PAID,
        created_by_id = 7, requested_cancel_at = None, active_since = Some 0, active_until = None\<rparr> 1 2 10
     \<lparr>plans = [\<lparr>plan_pk = Some 1, code = ''free'', user_type = PERSON, display_name = ''free'',
        storage_mb = 10, is_public = False, is_default = True, is_premium = False\<rparr>],
      subscriptions = [\<lparr>sub_id = 1, plan_id = 1, account_id = 7, storage_quantity = 0, status = ACTIVE_PAID,
        created_by_id = 7, requested_cancel_at = None, active_since = Some 0, active_until = None\<rparr>],
      packages = [\<lparr>pkg_id = 1, pkg_subscription_id = 1, pkg_type_id = 1, quantity = 3,
        pkg_active_since = 0, pkg_active_until = None\<rparr>],
      plan_id_seq = 9, subscription_id_seq = 9, extrapackage_id_seq = 9\<rparr>
   = (Inl (AssertionError ''Only premium accounts can have additional packages!''),
     \<lparr>plans = [\<lparr>plan_pk = Some 1, code = ''free'', user_type = PERSON, display_name = ''free'',
        storage_mb = 10, is_public = False, is_default = True, is_premium = False\<rparr>],
      subscriptions = [\<lparr>sub_id = 1, plan_id = 1, account_id = 7, storage_quantity = 0, status = ACTIVE_PAID,
        created_by_id = 7, requested_cancel_at = None, active_since = Some 0, active_until = None\<rparr>],
      packages = [\<lparr>pkg_id = 1, pkg_subscription_id = 1, pkg_type_id = 1, quantity = 3,
        pkg_active_since = 0, pkg_active_until = None\<rparr>],
      plan_id_seq = 9, subscription_id_seq = 9, extrapackage_id_seq = 9\<rparr>)"
  using update_package_quantity_not_premium
      [where self = "\<lparr>sub_id = 1, plan_id = 1, account_id = 7, storage_quantity = 0, status = ACTIVE_PAID,
        created_by_id = 7, requested_cancel_at = None, active_since = Some 0, active_until = None\<rparr>" and package_type = 1 and qty = 2 and now = 10
         and d = "\<lparr>plans = [\<lparr>plan_pk = Some 1, code = ''free'', user_type = PERSON, display_name = ''free'',
        storage_mb = 10, is_public = False, is_default = True, is_premium = False\<rparr>],
      subscriptions = [\<lparr>sub_id = 1, plan_id = 1, account_id = 7, storage_quantity = 0, status = ACTIVE_PAID,
        created_by_id = 7, requested_cancel_at = None, active_since = Some 0, active_until = None\<rparr>],
      packages = [\<lparr>pkg_id = 1, pkg_subscription_id = 1, pkg_type_id = 1, quantity = 3,
        pkg_active_since = 0, pkg_active_until = None\<rparr>],
      plan_id_seq = 9, subscription_id_seq = 9, extrapackage_id_seq = 9\<rparr>"
         and p = "\<lparr>plan_pk = Some 1, code = ''free'', user_type = PERSON, display_name = ''free'',
        storage_mb = 10, is_public = False, is_default = True, is_premium = False\<rparr>"]
  by simp

text \<open>
  C9: with the choices a dictionary (no code twice), a value that is the label of no
  choice makes \<open>to_internal_value\<close> of both choice fields raise the validation
  error whose message is formatted with the list of all labels; a value that is a label
  makes both return a code whose label it is.
\<close>

theorem choice_field_to_internal_value:
  assumes "distinct (map fst choices)"
  shows "(data \<notin> set (map snd choices) \<longrightarrow>
            RoleChoiceField_to_internal_value choices data =
              Inl (Serializers_ValidationError ''Invalid role. Acceptable values are {0}.''
                     (map snd choices))
          \<and> StatusChoiceField_to_internal_value choices data =
              Inl (Serializers_ValidationError ''Invalid status. Acceptable values are {0}.''
                     (map snd choices)))
       \<and> (data \<in> set (map snd choices) \<longrightarrow>
            (\<exists>i. (i, data) \<in> set choices
                \<and> RoleChoiceField_to_internal_value choices data = Inr i
                \<and> StatusChoiceField_to_internal_value choices data = Inr i))"
proof (intro conjI impI)
  assume "data \<notin> set (map snd choices)"
  then have none: "find_code (map fst choices) (map_of choices) data = None"
    by (rule find_code_unknown_label)
  show "RoleChoiceField_to_internal_value choices data =
          Inl (Serializers_ValidationError ''Invalid role. Acceptable values are {0}.'' (map snd choices))"
    using none by (simp add: RoleChoiceField_to_internal_value_def dict_values_def)
  show "StatusChoiceField_to_internal_value choices data =
          Inl (Serializers_ValidationError ''Invalid status. Acceptable values are {0}.'' (map snd choices))"
    using none by (simp add: StatusChoiceField_to_internal_value_def dict_values_def)
next
  assume "data \<in> set (map snd choices)"
  with assms have "\<exists>i. find_code (map fst choices) (map_of choices) data = Some i \<and>
      (i, data) \<in> set choices"
    by (rule find_code_known_label)
  then obtain i where
    i: "find_code (map fst choices) (map_of choices) data = Some i" "(i, data) \<in> set choices"
    by (elim exE conjE)
  have "RoleChoiceField_to_internal_value choices data = Inr i"
    using i(1) by (simp add: RoleChoiceField_to_internal_value_def)
  moreover have "StatusChoiceField_to_internal_value choices data = Inr i"
    using i(1) by (simp add: StatusChoiceField_to_internal_value_def)
  ultimately show "\<exists>i. (i, data) \<in> set choices
                \<and> RoleChoiceField_to_internal_value choices data = Inr i
                \<and> StatusChoiceField_to_internal_value choices data = Inr i"
    using i(2) by blast
qed

theorem choice_field_to_internal_value_witness:
  "RoleChoiceField_to_internal_value [(1::nat, ''admin''), (2, ''manager'')] ''owner'' =
     Inl (Serializers_ValidationError ''Invalid role. Acceptable values are {0}.''
            [''admin'', ''manager''])
   \<and> StatusChoiceField_to_internal_value [(1::nat, ''admin''), (2, ''manager'')] ''owner'' =
     Inl (Serializers_ValidationError ''Invalid status. Acceptable values are {0}.''
            [''admin'', ''manager''])
   \<and> RoleChoiceField_to_internal_value [(1::nat, ''admin''), (2, ''manager'')] ''manager'' = Inr 2
   \<and> StatusChoiceField_to_internal_value [(1::nat, ''admin''), (2, ''manager'')] ''manager'' = Inr 2"
proof -
  have d: "distinct (map fst [(1::nat, ''admin''), (2, ''manager'')])" by simp
  have a: "RoleChoiceField_to_internal_value [(1::nat, ''admin''), (2, ''manager'')] ''owner'' =
     Inl (Serializers_ValidationError ''Invalid role. Acceptable values are {0}.''
            [''admin'', ''manager''])
   \<and> StatusChoiceField_to_internal_value [(1::nat, ''admin''), (2, ''manager'')] ''owner'' =
     Inl (Serializers_ValidationError ''Invalid status. Acceptable values are {0}.''
            [''admin'', ''manager''])"
  proof -
    have o: "''owner'' \<notin> set (map snd [(1::nat, ''admin''), (2, ''manager'')])" by simp
    from choice_field_to_internal_value [OF d, of "''owner''"] o show ?thesis by simp
  qed
  have m: "''manager'' \<in> set (map snd [(1::nat, ''admin''), (2, ''manager'')])" by simp
  from choice_field_to_internal_value [OF d, of "''manager''"] m
  obtain i where i: "(i, ''manager'') \<in> set [(1::nat, ''admin''), (2, ''manager'')]"
      and r: "RoleChoiceField_to_internal_value [(1::nat, ''admin''), (2, ''manager'')] ''manager'' = Inr i"
      and s: "StatusChoiceField_to_internal_value [(1::nat, ''admin''), (2, ''manager'')] ''manager'' = Inr i"
    by blast
  from i have "i = 2" by simp
  with r s have b: "RoleChoiceField_to_internal_value [(1::nat, ''admin''), (2, ''manager'')] ''manager'' = Inr 2
      \<and> StatusChoiceField_to_internal_value [(1::nat, ''admin''), (2, ''manager'')] ''manager'' = Inr 2"
    by simp
  from a b show ?thesis by blast
qed

text \<open>
  C3, as the code has it: a record with \<open>active_until = until\<close> is selected by the
  active query at \<open>t\<close> exactly when \<open>active_since \<le> t \<le> until\<close> (a subscription
  needs a non-null \<open>active_since\<close>): the period the query reads is closed at both
  ends, and the record is still in effect at \<open>t = until\<close>.
\<close>

theorem active_period_closed:
  "(active_until s = Some until \<longrightarrow>
      (s \<in> set (SubscriptionQuerySet_active t rows)) =
      (s \<in> set rows \<and> (\<exists>since. active_since s = Some since \<and> since \<le> t) \<and> t \<le> until))
   \<and> (pkg_active_until k = Some until \<longrightarrow>
      (k \<in> set (ExtraPackageQuerySet_active t pkgs)) =
      (k \<in> set pkgs \<and> pkg_active_since k \<le> t \<and> t \<le> until))"
  by (auto simp: SubscriptionQuerySet_active_def subscription_is_active_def
      ExtraPackageQuerySet_active_def extra_package_is_active_def split: option.splits)

theorem active_period_closed_witness:
  "\<lparr>sub_id = 1, plan_id = 1, account_id = 7, storage_quantity = 0, status = INACTIVE_CANCELLED,
        created_by_id = 7, requested_cancel_at = None, active_since = Some 0, active_until = Some 10\<rparr>
     \<in> set (SubscriptionQuerySet_active 10
        [\<lparr>sub_id = 1, plan_id = 1, account_id = 7, storage_quantity = 0, status = INACTIVE_CANCELLED,
        created_by_id = 7, requested_cancel_at = None, active_since = Some 0, active_until = Some 10\<rparr>])
   \<and> \<lparr>sub_id = 1, plan_id = 1, account_id = 7, storage_quantity = 0, status = INACTIVE_CANCELLED,
        created_by_id = 7, requested_cancel_at = None, active_since = Some 0, active_until = Some 10\<rparr>
     \<notin> set (SubscriptionQuerySet_active 11
        [\<lparr>sub_id = 1, plan_id = 1, account_id = 7, storage_quantity = 0, status = INACTIVE_CANCELLED,
        created_by_id = 7, requested_cancel_at = None, active_since = Some 0, active_until = Some 10\<rparr>])
   \<and> \<lparr>pkg_id = 1, pkg_subscription_id = 1, pkg_type_id = 1, quantity = 3,
        pkg_active_since = 0, pkg_active_until = Some 10\<rparr>
     \<in> set (ExtraPackageQuerySet_active 10
        [\<lparr>pkg_id = 1, pkg_subscription_id = 1, pkg_type_id = 1, quantity = 3,
        pkg_active_since = 0, pkg_active_until = Some 10\<rparr>])
   \<and> \<lparr>pkg_id = 1, pkg_subscription_id = 1, pkg_type_id = 1, quantity = 3,
        pkg_active_since = 0, pkg_active_until = Some 10\<rparr>
     \<notin> set (ExtraPackageQuerySet_active 11
        [\<lparr>pkg_id = 1, pkg_subscription_id = 1, pkg_type_id = 1, quantity = 3,
        pkg_active_since = 0, pkg_active_until = Some 10\<rparr>])"
proof -
  let ?s = "\<lparr>sub_id = 1, plan_id = 1, account_id = 7, storage_quantity = 0, status = INACTIVE_CANCELLED,
        created_by_id = 7, requested_cancel_at = None, active_since = Some 0, active_until = Some 10\<rparr>"
  let ?k = "\<lparr>pkg_id = 1, pkg_subscription_id = 1, pkg_type_id = 1, quantity = 3,
        pkg_active_since = 0, pkg_active_until = Some 10\<rparr>"
  have s: "active_until ?s = Some 10" and k: "pkg_active_until ?k = Some 10" by simp_all
  note T10 = active_period_closed [where s = ?s and k = ?k and until = 10 and t = 10
      and rows = "[?s]" and pkgs = "[?k]"]
  note T11 = active_period_closed [where s = ?s and k = ?k and until = 10 and t = 11
      and rows = "[?s]" and pkgs = "[?k]"]
  from T10 s have a: "?s \<in> set (SubscriptionQuerySet_active 10 [?s])" by simp
  from T11 s have b: "?s \<notin> set (SubscriptionQuerySet_active 11 [?s])" by simp
  from T10 k have c: "?k \<in> set (ExtraPackageQuerySet_active 10 [?k])" by simp
  from T11 k have d: "?k \<notin> set (ExtraPackageQuerySet_active 11 [?k])" by simp
  from a b c d show ?thesis by blast
qed

text \<open>
  C3 as the claim states it fails: a subscription and a package with
  \<open>active_until = 10\<close> are selected by the active queries at the instant 10, which
  the range \<open>tstzrange(0, 10)\<close> of the constraint does not contain.
\<close>

theorem active_selects_at_active_until:
  "SubscriptionQuerySet_active 10 [\<lparr>sub_id = 1, plan_id = 1, account_id = 7, storage_quantity = 0, status = INACTIVE_CANCELLED,
        created_by_id = 7, requested_cancel_at = None, active_since = Some 0, active_until = Some 10\<rparr>]
     = [\<lparr>sub_id = 1, plan_id = 1, account_id = 7, storage_quantity = 0, status = INACTIVE_CANCELLED,
        created_by_id = 7, requested_cancel_at = None, active_since = Some 0, active_until = Some 10\<rparr>]
   \<and> ExtraPackageQuerySet_active 10 [\<lparr>pkg_id = 1, pkg_subscription_id = 1, pkg_type_id = 1, quantity = 3,
        pkg_active_since = 0, pkg_active_until = Some 10\<rparr>]
     = [\<lparr>pkg_id = 1, pkg_subscription_id = 1, pkg_type_id = 1, quantity = 3,
        pkg_active_since = 0, pkg_active_until = Some 10\<rparr>]
   \<and> \<not> range_contains (0, Some 10) 10"
  by (simp add: SubscriptionQuerySet_active_def subscription_is_active_def
      ExtraPackageQuerySet_active_def extra_package_is_active_def range_contains_def)

text \<open>
  C1 (the code at the instant of activation): \<open>A\<close> is active since 0 without end,
  \<open>B\<close> of the same account is activated with \<open>active_since = 10\<close>, the clock reads
  10. The call returns, the constraint accepts the table, and the active query selects
  both \<open>A\<close> and \<open>B\<close> at 10.
\<close>

theorem update_subscription_two_active_at_boundary:
  "update_subscription
      \<lparr>sub_id = 2, plan_id = 1, account_id = 7, storage_quantity = 0, status = INACTIVE_DRAFT,
        created_by_id = 7, requested_cancel_at = None, active_since = None, active_until = None\<rparr>
      ACTIVE_PAID 10 None [] 10
      \<lparr>plans = [],
      subscriptions = [\<lparr>sub_id = 1, plan_id = 1, account_id = 7, storage_quantity = 0, status = ACTIVE_PAID,
        created_by_id = 7, requested_cancel_at = None, active_since = Some 0, active_until = None\<rparr>,
        \<lparr>sub_id = 2, plan_id = 1, account_id = 7, storage_quantity = 0, status = INACTIVE_DRAFT,
        created_by_id = 7, requested_cancel_at = None, active_since = None, active_until = None\<rparr>],
      packages = [],
      plan_id_seq = 9, subscription_id_seq = 9, extrapackage_id_seq = 9\<rparr>
    = (Inr \<lparr>sub_id = 2, plan_id = 1, account_id = 7, storage_quantity = 0, status = ACTIVE_PAID,
        created_by_id = 7, requested_cancel_at = None, active_since = Some 10, active_until = None\<rparr>,
       \<lparr>plans = [],
      subscriptions = [\<lparr>sub_id = 1, plan_id = 1, account_id = 7, storage_quantity = 0, status = INACTIVE_CANCELLED,
        created_by_id = 7, requested_cancel_at = None, active_since = Some 0, active_until = Some 10\<rparr>,
        \<lparr>sub_id = 2, plan_id = 1, account_id = 7, storage_quantity = 0, status = ACTIVE_PAID,
        created_by_id = 7, requested_cancel_at = None, active_since = Some 10, active_until = None\<rparr>],
      packages = [],
      plan_id_seq = 9, subscription_id_seq = 9, extrapackage_id_seq = 9\<rparr>)
   \<and> filter (\<lambda>s. account_id s = 7) (SubscriptionQuerySet_active 10
        [\<lparr>sub_id = 1, plan_id = 1, account_id = 7, storage_quantity = 0, status = INACTIVE_CANCELLED,
        created_by_id = 7, requested_cancel_at = None, active_since = Some 0, active_until = Some 10\<rparr>,
         \<lparr>sub_id = 2, plan_id = 1, account_id = 7, storage_quantity = 0, status = ACTIVE_PAID,
        created_by_id = 7, requested_cancel_at = None, active_since = Some 10, active_until = None\<rparr>])
     = [\<lparr>sub_id = 1, plan_id = 1, account_id = 7, storage_quantity = 0, status = INACTIVE_CANCELLED,
        created_by_id = 7, requested_cancel_at = None, active_since = Some 0, active_until = Some 10\<rparr>,
        \<lparr>sub_id = 2, plan_id = 1, account_id = 7, storage_quantity = 0, status = ACTIVE_PAID,
        created_by_id = 7, requested_cancel_at = None, active_since = Some 10, active_until = None\<rparr>]"
  by (simp add: update_subscription_def atomic_def cancel_other_active_def Let_def SubscriptionQuerySet_active_def subscription_is_active_def prevent_overlaps_def range_error_row_def tstzrange_error_def conflicts_def range_overlaps_def below_upper_def)

text \<open>
  C4 (the code on a premium plan): with an active package of type 1 on the
  subscription, \<open>update_package_quantity\<close> for quantity 0 and for quantity 2 raises
  \<open>AttributeError\<close>; the package is not closed and none is created.
\<close>

theorem update_package_quantity_premium_raises:
  "update_package_quantity \<lparr>sub_id = 1, plan_id = 1, account_id = 7, storage_quantity = 0, status = ACTIVE_PAID,
        created_by_id = 7, requested_cancel_at = None, active_since = Some 0, active_until = None\<rparr> 1 0 10
     \<lparr>plans = [\<lparr>plan_pk = Some 1, code = ''pro'', user_type = PERSON, display_name = ''pro'',
        storage_mb = 10, is_public = False, is_default = False, is_premium = True\<rparr>],
      subscriptions = [\<lparr>sub_id = 1, plan_id = 1, account_id = 7, storage_quantity = 0, status = ACTIVE_PAID,
        created_by_id = 7, requested_cancel_at = None, active_since = Some 0, active_until = None\<rparr>],
      packages = [\<lparr>pkg_id = 1, pkg_subscription_id = 1, pkg_type_id = 1, quantity = 3,
        pkg_active_since = 0, pkg_active_until = None\<rparr>],
      plan_id_seq = 9, subscription_id_seq = 9, extrapackage_id_seq = 9\<rparr>
   = (Inl AttributeError,
     \<lparr>plans = [\<lparr>plan_pk = Some 1, code = ''pro'', user_type = PERSON, display_name = ''pro'',
        storage_mb = 10, is_public = False, is_default = False, is_premium = True\<rparr>],
      subscriptions = [\<lparr>sub_id = 1, plan_id = 1, account_id = 7, storage_quantity = 0, status = ACTIVE_PAID,
        created_by_id = 7, requested_cancel_at = None, active_since = Some 0, active_until = None\<rparr>],
      packages = [\<lparr>pkg_id = 1, pkg_subscription_id = 1, pkg_type_id = 1, quantity = 3,
        pkg_active_since = 0, pkg_active_until = None\<rparr>],
      plan_id_seq = 9, subscription_id_seq = 9, extrapackage_id_seq = 9\<rparr>)
   \<and> update_package_quantity \<lparr>sub_id = 1, plan_id = 1, account_id = 7, storage_quantity = 0, status = ACTIVE_PAID,
        created_by_id = 7, requested_cancel_at = None, active_since = Some 0, active_until = None\<rparr> 1 2 10
     \<lparr>plans = [\<lparr>plan_pk = Some 1, code = ''pro'', user_type = PERSON, display_name = ''pro'',
        storage_mb = 10, is_public = False, is_default = False, is_premium = True\<rparr>],
      subscriptions = [\<lparr>sub_id = 1, plan_id = 1, account_id = 7, storage_quantity = 0, status = ACTIVE_PAID,
        created_by_id = 7, requested_cancel_at = None, active_since = Some 0, active_until = None\<rparr>],
      packages = [\<lparr>pkg_id = 1, pkg_subscription_id = 1, pkg_type_id = 1, quantity = 3,
        pkg_active_since = 0, pkg_active_until = None\<rparr>],
      plan_id_seq = 9, subscription_id_seq = 9, extrapackage_id_seq = 9\<rparr>
   = (Inl AttributeError,
     \<lparr>plans = [\<lparr>plan_pk = Some 1, code = ''pro'', user_type = PERSON, display_name = ''pro'',
        storage_mb = 10, is_public = False, is_default = False, is_premium = True\<rparr>],
      subscriptions = [\<lparr>sub_id = 1, plan_id = 1, account_id = 7, storage_quantity = 0, status = ACTIVE_PAID,
        created_by_id = 7, requested_cancel_at = None, active_since = Some 0, active_until = None\<rparr>],
      packages = [\<lparr>pkg_id = 1, pkg_subscription_id = 1, pkg_type_id = 1, quantity = 3,
        pkg_active_since = 0, pkg_active_until = None\<rparr>],
      plan_id_seq = 9, subscription_id_seq = 9, extrapackage_id_seq = 9\<rparr>)"
  by (simp add: update_package_quantity_def atomic_def close_old_package_def
      self_subscription_def keep_sequences_def)

text \<open>
  C8: in a plan table with one row per primary key and at most one default plan per user
  type, every \<open>Plan.save\<close> that returns leaves at most one default plan per user
  type; after a returned \<open>Plan.save\<close> of a plan with \<open>is_default\<close>, no other plan
  of its user type is default; \<open>Plan.get_or_create_default\<close>, called any number of
  times, keeps at most one default plan per user type (also from the empty table), and a
  second call changes nothing.
\<close>

theorem one_default_plan_per_user_type:
  "(distinct (map plan_pk (plans d)) \<and> one_default_per_user_type (plans d) \<and>
      Plan_save self d = (Inr saved, d')
     \<longrightarrow> one_default_per_user_type (plans d'))
   \<and> (is_default self \<and> Plan_save self d = (Inr saved, d')
     \<longrightarrow> (\<forall>p\<in>set (plans d'). user_type p = user_type self \<and> p \<noteq> saved \<longrightarrow> \<not> is_default p))
   \<and> (one_default_per_user_type (plans d)
     \<longrightarrow> one_default_per_user_type (plans (((\<lambda>x. snd (get_or_create_default x)) ^^ n) d)))
   \<and> one_default_per_user_type (plans (((\<lambda>x. snd (get_or_create_default x)) ^^ n)
          \<lparr>plans = [], subscriptions = ss, packages = ps,
            plan_id_seq = kp, subscription_id_seq = ks, extrapackage_id_seq = ke\<rparr>))
   \<and> snd (get_or_create_default (snd (get_or_create_default d))) = snd (get_or_create_default d)"
proof (intro conjI impI ballI)
  assume "distinct (map plan_pk (plans d)) \<and> one_default_per_user_type (plans d) \<and>
      Plan_save self d = (Inr saved, d')"
  then show "one_default_per_user_type (plans d')"
    using Plan_save_keeps_invariant by blast
next
  fix p
  assume "is_default self \<and> Plan_save self d = (Inr saved, d')" and "p \<in> set (plans d')"
    and "user_type p = user_type self \<and> p \<noteq> saved"
  then show "\<not> is_default p"
    using Plan_save_unsets_others [of self d saved d' p] by blast
next
  assume "one_default_per_user_type (plans d)"
  then show "one_default_per_user_type (plans (((\<lambda>x. snd (get_or_create_default x)) ^^ n) d))"
    by (rule get_or_create_default_repeated)
next
  have "one_default_per_user_type (plans \<lparr>plans = [], subscriptions = ss, packages = ps,
            plan_id_seq = kp, subscription_id_seq = ks, extrapackage_id_seq = ke\<rparr>)"
    by (simp add: one_default_per_user_type_def)
  then show "one_default_per_user_type (plans (((\<lambda>x. snd (get_or_create_default x)) ^^ n)
          \<lparr>plans = [], subscriptions = ss, packages = ps,
            plan_id_seq = kp, subscription_id_seq = ks, extrapackage_id_seq = ke\<rparr>))"
    by (rule get_or_create_default_repeated)
next
  show "snd (get_or_create_default (snd (get_or_create_default d))) = snd (get_or_create_default d)"
    by (rule get_or_create_default_idempotent)
qed

theorem one_default_plan_per_user_type_witness:
  "Plan_save \<lparr>plan_pk = None, code = ''pro'', user_type = PERSON, display_name = ''pro'',
        storage_mb = 10, is_public = False, is_default = True, is_premium = False\<rparr>
     \<lparr>plans = [\<lparr>plan_pk = Some 1, code = ''free'', user_type = PERSON, display_name = ''free'',
        storage_mb = 10, is_public = False, is_default = True, is_premium = False\<rparr>,
        \<lparr>plan_pk = Some 3, code = ''org'', user_type = ORGANIZATION, display_name = ''org'',
        storage_mb = 10, is_public = False, is_default = True, is_premium = False\<rparr>],
      subscriptions = [], packages = [],
      plan_id_seq = 3, subscription_id_seq = 0, extrapackage_id_seq = 0\<rparr>
   = (Inr \<lparr>plan_pk = Some 4, code = ''pro'', user_type = PERSON, display_name = ''pro'',
        storage_mb = 10, is_public = False, is_default = True, is_premium = False\<rparr>,
     \<lparr>plans = [\<lparr>plan_pk = Some 1, code = ''free'', user_type = PERSON, display_name = ''free'',
        storage_mb = 10, is_public = False, is_default = False, is_premium = False\<rparr>,
        \<lparr>plan_pk = Some 3, code = ''org'', user_type = ORGANIZATION, display_name = ''org'',
        storage_mb = 10, is_public = False, is_default = True, is_premium = False\<rparr>,
        \<lparr>plan_pk = Some 4, code = ''pro'', user_type = PERSON, display_name = ''pro'',
        storage_mb = 10, is_public = False, is_default = True, is_premium = False\<rparr>],
      subscriptions = [], packages = [],
      plan_id_seq = 4, subscription_id_seq = 0, extrapackage_id_seq = 0\<rparr>)
   \<and> one_default_per_user_type
      [\<lparr>plan_pk = Some 1, code = ''free'', user_type = PERSON, display_name = ''free'',
        storage_mb = 10, is_public = False, is_default = False, is_premium = False\<rparr>,
       \<lparr>plan_pk = Some 3, code = ''org'', user_type = ORGANIZATION, display_name = ''org'',
        storage_mb = 10, is_public = False, is_default = True, is_premium = False\<rparr>,
       \<lparr>plan_pk = Some 4, code = ''pro'', user_type = PERSON, display_name = ''pro'',
        storage_mb = 10, is_public = False, is_default = True, is_premium = False\<rparr>]
   \<and> \<not> is_default \<lparr>plan_pk = Some 1, code = ''free'', user_type = PERSON, display_name = ''free'',
        storage_mb = 10, is_public = False, is_default = False, is_premium = False\<rparr>
   \<and> one_default_per_user_type (plans (((\<lambda>x. snd (get_or_create_default x)) ^^ 2)
       \<lparr>plans = [\<lparr>plan_pk = Some 1, code = ''free'', user_type = PERSON, display_name = ''free'',
        storage_mb = 10, is_public = False, is_default = True, is_premium = False\<rparr>,
        \<lparr>plan_pk = Some 3, code = ''org'', user_type = ORGANIZATION, display_name = ''org'',
        storage_mb = 10, is_public = False, is_default = True, is_premium = False\<rparr>],
      subscriptions = [], packages = [],
      plan_id_seq = 3, subscription_id_seq = 0, extrapackage_id_seq = 0\<rparr>))
   \<and> one_default_per_user_type (plans (((\<lambda>x. snd (get_or_create_default x)) ^^ 2)
       \<lparr>plans = [], subscriptions = [], packages = [],
       plan_id_seq = 0, subscription_id_seq = 0, extrapackage_id_seq = 0\<rparr>))"
proof -
  let ?self = "\<lparr>plan_pk = None, code = ''pro'', user_type = PERSON, display_name = ''pro'',
        storage_mb = 10, is_public = False, is_default = True, is_premium = False\<rparr>"
  let ?saved = "\<lparr>plan_pk = Some 4, code = ''pro'', user_type = PERSON, display_name = ''pro'',
        storage_mb = 10, is_public = False, is_default = True, is_premium = False\<rparr>"
  let ?d = "\<lparr>plans = [\<lparr>plan_pk = Some 1, code = ''free'', user_type = PERSON, display_name = ''free'',
        storage_mb = 10, is_public = False, is_default = True, is_premium = False\<rparr>,
        \<lparr>plan_pk = Some 3, code = ''org'', user_type = ORGANIZATION, display_name = ''org'',
        storage_mb = 10, is_public = False, is_default = True, is_premium = False\<rparr>],
      subscriptions = [], packages = [],
      plan_id_seq = 3, subscription_id_seq = 0, extrapackage_id_seq = 0\<rparr>"
  let ?d' = "\<lparr>plans = [\<lparr>plan_pk = Some 1, code = ''free'', user_type = PERSON, display_name = ''free'',
        storage_mb = 10, is_public = False, is_default = False, is_premium = False\<rparr>,
        \<lparr>plan_pk = Some 3, code = ''org'', user_type = ORGANIZATION, display_name = ''org'',
        storage_mb = 10, is_public = False, is_default = True, is_premium = False\<rparr>,
        \<lparr>plan_pk = Some 4, code = ''pro'', user_type = PERSON, display_name = ''pro'',
        storage_mb = 10, is_public = False, is_default = True, is_premium = False\<rparr>],
      subscriptions = [], packages = [],
      plan_id_seq = 4, subscription_id_seq = 0, extrapackage_id_seq = 0\<rparr>"
  let ?old = "\<lparr>plan_pk = Some 1, code = ''free'', user_type = PERSON, display_name = ''free'',
        storage_mb = 10, is_public = False, is_default = False, is_premium = False\<rparr>"
  note T = one_default_plan_per_user_type
      [where d = ?d and self = ?self and saved = ?saved and d' = ?d' and n = 2
         and ss = "[]" and ps = "[]" and kp = 0 and ks = 0 and ke = 0]
  have ok: "Plan_save ?self ?d = (Inr ?saved, ?d')"
    by (simp add: Plan_save_def atomic_def super_save_def unset_default_def Let_def)
  have keys: "distinct (map plan_pk (plans ?d))" by simp
  have inv: "one_default_per_user_type (plans ?d)"
    by (simp add: one_default_per_user_type_def)
  have dflt: "is_default ?self" by simp
  from T keys inv ok have c1: "one_default_per_user_type (plans ?d')" by blast
  from T dflt ok have "\<forall>p\<in>set (plans ?d'). user_type p = user_type ?self \<and> p \<noteq> ?saved
      \<longrightarrow> \<not> is_default p" by blast
  moreover have "?old \<in> set (plans ?d')" by simp
  moreover have "user_type ?old = user_type ?self \<and> ?old \<noteq> ?saved" by simp
  ultimately have c2: "\<not> is_default ?old" by blast
  from T inv have c3: "one_default_per_user_type (plans (((\<lambda>x. snd (get_or_create_default x)) ^^ 2) ?d))" by blast
  from T have c4: "one_default_per_user_type (plans (((\<lambda>x. snd (get_or_create_default x)) ^^ 2)
       \<lparr>plans = [], subscriptions = [], packages = [],
       plan_id_seq = 0, subscription_id_seq = 0, extrapackage_id_seq = 0\<rparr>))" by blast
  from c1 have c1': "one_default_per_user_type [?old, \<lparr>plan_pk = Some 3, code = ''org'', user_type = ORGANIZATION, display_name = ''org'',
        storage_mb = 10, is_public = False, is_default = True, is_premium = False\<rparr>, ?saved]" by simp
  from ok c1' c2 c3 c4 show ?thesis by blast
qed

end
